theory Spec2Isabelle
  imports Complex_Main "HOL-Library.Multiset"
begin

section \<open>Outcomes of outbound calls and raised errors\<close>

text \<open>
  The recommendation helper exists twice in the repository: once on top of Prisma
  (numeric product ids, relations for categories and order items) and once on top of
  Mongoose with a module-level cache. Both are embedded here. Names are those of the
  sources; the definitions of the cache-based file carry the suffix \<open>_cache\<close>.

  A rejected promise or a thrown exception is a value \<open>Inl x\<close> of type \<open>exn + 'a\<close>.
  Every function that talks to the model endpoint also returns the list of outbound
  requests it issued, in order.
\<close>

datatype exn = StorageError | FetchError | AbortError | SyntaxError | TypeError

datatype outbound = ProbeGET | GeneratePOST

text \<open>
  What \<open>await response.json()\<close> gives: a rejection when the body is not JSON, otherwise
  an object whose \<open>response\<close> field is a string or is missing.
\<close>

datatype json_body = NotJson | JsonObject "string option"

text \<open>
  What \<open>await fetch(...)\<close> gives: a rejection (network failure), an abort raised by the
  timeout signal, or a response with its \<open>ok\<close> flag and body.
\<close>

datatype fetch_outcome = Rejected | Aborted | Responded bool json_body

record llm =
  USE_OLLAMA :: bool
  probe :: fetch_outcome
  generate :: fetch_outcome

text \<open>The requested number of recommendations \<open>limit\<close> is a natural number (default 4).\<close>

subsection \<open>isOllamaAvailable\<close>

text \<open>
  One GET on the base URL with a three second abort signal; \<open>response.ok\<close> on an
  answer, \<open>false\<close> from the catch block otherwise. Identical in both files.
\<close>

definition isOllamaAvailable :: "llm \<Rightarrow> bool \<times> outbound list" where
  "isOllamaAvailable l =
     (case probe l of
        Rejected \<Rightarrow> (False, [ProbeGET])
      | Aborted \<Rightarrow> (False, [ProbeGET])
      | Responded ok body \<Rightarrow> (ok, [ProbeGET]))"

section \<open>Reading the model's answer\<close>

definition is_digit :: "char \<Rightarrow> bool" where
  "is_digit c = (c \<in> set ''0123456789'')"

text \<open>The class \<open>\w\<close> of the regular expressions: letters, digits and the underscore.\<close>

definition is_word :: "char \<Rightarrow> bool" where
  "is_word c =
     (c \<in> set ''abcdefghijklmnopqrstuvwxyzABCDEFGHIJKLMNOPQRSTUVWXYZ0123456789_'')"

text \<open>
  \<open>text.match(/\d+/g)\<close>: the maximal runs of digits, left to right. The first argument
  holds the run being read, reversed. JavaScript answers \<open>null\<close> when there is no match;
  that is the empty list here, and each caller tests for it as the source does.
\<close>

fun match_digits :: "string \<Rightarrow> string \<Rightarrow> string list" where
  "match_digits run [] = (if run = [] then [] else [rev run])"
| "match_digits run (c # cs) =
     (if is_digit c then match_digits (c # run) cs
      else (if run = [] then [] else [rev run]) @ match_digits [] cs)"

text \<open>
  \<open>text.match(/\b\d+\b/g)\<close>: a maximal run of digits matches only when neither
  neighbour is a word character (a shorter piece of a run never starts or ends at a word
  boundary). \<open>pw\<close> tells whether the character before the current run is a word character.
\<close>

fun match_bounded_digits :: "bool \<Rightarrow> string \<Rightarrow> string \<Rightarrow> string list" where
  "match_bounded_digits pw run [] = (if run \<noteq> [] \<and> \<not> pw then [rev run] else [])"
| "match_bounded_digits pw run (c # cs) =
     (if is_digit c then match_bounded_digits pw (c # run) cs
      else (if run \<noteq> [] \<and> \<not> pw \<and> \<not> is_word c then [rev run] else [])
           @ match_bounded_digits (is_word c) [] cs)"

text \<open>Case folding of the flag \<open>i\<close> on ASCII letters.\<close>

definition to_lower :: "char \<Rightarrow> char" where
  "to_lower c =
     (case map_of (zip ''ABCDEFGHIJKLMNOPQRSTUVWXYZ'' ''abcdefghijklmnopqrstuvwxyz'') c of
        None \<Rightarrow> c
      | Some l \<Rightarrow> l)"

definition id_label :: string where
  "id_label = ''Recommended product IDs:''"

text \<open>
  \<open>text.match(/Recommended product IDs:([^\n]+)/i)\<close>: the leftmost place where the label
  is followed by at least one character other than a line feed; the captured group runs
  to the end of that line.
\<close>

fun match_id_section :: "string \<Rightarrow> string option" where
  "match_id_section [] = None"
| "match_id_section (c # cs) =
     (let rest = drop (length id_label) (c # cs) in
      if map to_lower (take (length id_label) (c # cs)) = map to_lower id_label
         \<and> rest \<noteq> [] \<and> hd rest \<noteq> CHR 0x0A
      then Some (takeWhile (\<lambda>d. d \<noteq> CHR 0x0A) rest)
      else match_id_section cs)"

definition digit_value :: "char \<Rightarrow> int" where
  "digit_value c =
     (case map_of (zip ''0123456789'' [0, 1, 2, 3, 4, 5, 6, 7, 8, 9]) c of
        None \<Rightarrow> 0
      | Some d \<Rightarrow> d)"

text \<open>
  \<open>parseInt(s, 10)\<close> on a run of digits. The value is exact here; JavaScript rounds
  beyond \<open>2^53\<close>, where no number is the id of a product any more.
\<close>

definition parseInt :: "string \<Rightarrow> int" where
  "parseInt s = foldl (\<lambda>a c. 10 * a + digit_value c) 0 s"

section \<open>The Prisma implementation\<close>

subsection \<open>Data\<close>

record category =
  category_id :: int
  category_name :: string

record product =
  product_id :: int
  name :: string
  description :: "string option"
  categories :: "category list"

record order_item =
  item_productId :: int

record order =
  order_id :: int
  items :: "order_item list"

text \<open>
  The tables, each in the order in which a query without \<open>orderBy\<close> returns its rows.
\<close>

record database =
  products :: "product list"
  orders :: "order list"

text \<open>The places where the code awaits a Prisma query; each of them may reject.\<close>

datatype query =
  FallbackQuery | OrderQuery | OrderSimilarQuery | CurrentProductQuery
  | SimilarQuery | AdditionalQuery | PopularQuery

record env =
  ollama :: llm
  db :: database
  storage_fails :: "query \<Rightarrow> bool"

definition prisma :: "env \<Rightarrow> query \<Rightarrow> 'a \<Rightarrow> exn + 'a" where
  "prisma e q rows = (if storage_fails e q then Inl StorageError else Inr rows)"

text \<open>JavaScript truthiness of an optional numeric argument: \<open>undefined\<close> and 0 are falsy.\<close>

definition truthy :: "int option \<Rightarrow> bool" where
  "truthy v = (case v of None \<Rightarrow> False | Some n \<Rightarrow> n \<noteq> 0)"

text \<open>The number of order items that refer to a product (\<open>orderItems._count\<close>).\<close>

definition orderItems_count :: "database \<Rightarrow> product \<Rightarrow> nat" where
  "orderItems_count d p =
     length (filter (\<lambda>i. item_productId i = product_id p) (concat (map items (orders d))))"

text \<open>
  \<open>orderBy: { orderItems: { _count: 'desc' } }\<close>. Rows with equal counts are kept in
  table order.
\<close>

definition orderBy_count_desc :: "database \<Rightarrow> product list \<Rightarrow> product list" where
  "orderBy_count_desc d ps = sort_key (\<lambda>p. - int (orderItems_count d p)) ps"

text \<open>The relation \<open>item.product\<close> of an order item, absent when no such product exists.\<close>

definition item_product :: "database \<Rightarrow> order_item \<Rightarrow> product option" where
  "item_product d i = find (\<lambda>p. product_id p = item_productId i) (products d)"

text \<open>
  \<open>new Map(ps.map(p => [p.id, p])).get(id)\<close>: a later entry with the same key replaces
  an earlier one.
\<close>

definition productsMap :: "product list \<Rightarrow> int \<Rightarrow> product option" where
  "productsMap ps = map_of (rev (map (\<lambda>p. (product_id p, p)) ps))"

text \<open>
  \<open>xs.filter((x, index, self) => self.indexOf(x) === index)\<close>: the first occurrence of
  each element, in order.
\<close>

definition uniq :: "'a list \<Rightarrow> 'a list" where
  "uniq xs = rev (remdups (rev xs))"

subsection \<open>The two ranking functions\<close>

text \<open>
  \<open>getOllamaRecommendations\<close>. The early return comes before any request. The body of
  the \<open>try\<close> block is \<open>getOllamaRecommendations_try\<close>, where a rejected or aborted
  \<open>fetch\<close>, a body that is not JSON and a missing \<open>response\<close> field (whose \<open>.match\<close>
  throws) are raised errors; the \<open>catch\<close> block turns every one of them into \<open>null\<close>.
\<close>

definition getOllamaRecommendations_try ::
  "llm \<Rightarrow> product list \<Rightarrow> nat \<Rightarrow> exn + int list option" where
  "getOllamaRecommendations_try l productsToRank limit =
     (case generate l of
        Rejected \<Rightarrow> Inl FetchError
      | Aborted \<Rightarrow> Inl AbortError
      | Responded ok body \<Rightarrow>
          if \<not> ok then Inr None
          else (case body of
                  NotJson \<Rightarrow> Inl SyntaxError
                | JsonObject None \<Rightarrow> Inl TypeError
                | JsonObject (Some ollamaResponse) \<Rightarrow>
                    (let numberMatches =
                           (case match_id_section ollamaResponse of
                              Some idSection \<Rightarrow> match_digits [] idSection
                            | None \<Rightarrow> match_digits [] ollamaResponse)
                     in if numberMatches = [] then Inr None
                        else (let productIds =
                                    filter (\<lambda>i. list_ex (\<lambda>p. product_id p = i) productsToRank)
                                      (map parseInt numberMatches)
                              in if length productIds < min 2 limit then Inr None
                                 else Inr (Some productIds)))))"

definition getOllamaRecommendations ::
  "llm \<Rightarrow> product \<Rightarrow> product list \<Rightarrow> nat \<Rightarrow> (exn + int list option) \<times> outbound list" where
  "getOllamaRecommendations l currentProduct productsToRank limit =
     (if length productsToRank < limit then (Inr None, [])
      else (case getOllamaRecommendations_try l productsToRank limit of
              Inl error \<Rightarrow> (Inr None, [GeneratePOST])
            | Inr ids \<Rightarrow> (Inr ids, [GeneratePOST])))"

text \<open>
  \<open>getOllamaRecommendationsForOrder\<close> builds its prompt inside the \<open>try\<close> block, from
  \<open>item.product.name\<close> of every item of the order. For an item without a product row
  that is a TypeError, raised before any request is sent and turned into \<open>null\<close> by the
  \<open>catch\<close> block.
\<close>

definition orderPrompt_error :: "database \<Rightarrow> order \<Rightarrow> exn option" where
  "orderPrompt_error d ord =
     (if list_ex (\<lambda>item. item_product d item = None) (items ord) then Some TypeError else None)"

text \<open>
  The rest of the \<open>try\<close> block, from the request on: the same shape as above; the
  numbers are searched in the whole answer and must stand between word boundaries.
\<close>

definition getOllamaRecommendationsForOrder_try ::
  "llm \<Rightarrow> product list \<Rightarrow> nat \<Rightarrow> exn + int list option" where
  "getOllamaRecommendationsForOrder_try l productsToRank limit =
     (case generate l of
        Rejected \<Rightarrow> Inl FetchError
      | Aborted \<Rightarrow> Inl AbortError
      | Responded ok body \<Rightarrow>
          if \<not> ok then Inr None
          else (case body of
                  NotJson \<Rightarrow> Inl SyntaxError
                | JsonObject None \<Rightarrow> Inl TypeError
                | JsonObject (Some ollamaResponse) \<Rightarrow>
                    (let numberMatches = match_bounded_digits False [] ollamaResponse
                     in if numberMatches = [] then Inr None
                        else (let productIds =
                                    filter (\<lambda>i. list_ex (\<lambda>p. product_id p = i) productsToRank)
                                      (map parseInt numberMatches)
                              in if length productIds < min 2 limit then Inr None
                                 else Inr (Some productIds)))))"

definition getOllamaRecommendationsForOrder ::
  "llm \<Rightarrow> database \<Rightarrow> order \<Rightarrow> product list \<Rightarrow> nat
     \<Rightarrow> (exn + int list option) \<times> outbound list" where
  "getOllamaRecommendationsForOrder l d ord productsToRank limit =
     (if length productsToRank < limit then (Inr None, [])
      else (case orderPrompt_error d ord of
              Some error \<Rightarrow> (Inr None, [])
            | None \<Rightarrow>
                (case getOllamaRecommendationsForOrder_try l productsToRank limit of
                   Inl error \<Rightarrow> (Inr None, [GeneratePOST])
                 | Inr ids \<Rightarrow> (Inr ids, [GeneratePOST]))))"

subsection \<open>getRecommendations and getPopularProducts\<close>

definition getPopularProducts :: "env \<Rightarrow> nat \<Rightarrow> exn + product list" where
  "getPopularProducts e limit =
     prisma e PopularQuery (take limit (orderBy_count_desc (db e) (products (db e))))"

text \<open>The query behind \<open>fallbackProducts\<close>; the seed is left out when \<open>productId\<close> is truthy.\<close>

definition fallbackProducts_query :: "env \<Rightarrow> int option \<Rightarrow> nat \<Rightarrow> exn + product list" where
  "fallbackProducts_query e productId limit =
     prisma e FallbackQuery
       (take limit
          (orderBy_count_desc (db e)
             (filter (\<lambda>p. if truthy productId then Some (product_id p) \<noteq> productId else True)
                (products (db e)))))"

text \<open>The block that both paths reach when no ranked list is returned.\<close>

definition categoryProductsForOrder :: "product list \<Rightarrow> product list \<Rightarrow> nat \<Rightarrow> product list" where
  "categoryProductsForOrder similarCategoryProducts fallbackProducts limit =
     (if similarCategoryProducts \<noteq> [] then
        (if limit \<le> length similarCategoryProducts then take limit similarCategoryProducts
         else take limit
                (similarCategoryProducts
                 @ take (limit - length similarCategoryProducts)
                     (filter (\<lambda>p. \<not> list_ex (\<lambda>sp. product_id sp = product_id p)
                                       similarCategoryProducts)
                        fallbackProducts)))
      else fallbackProducts)"

definition categoryProductsForProduct :: "product list \<Rightarrow> product list \<Rightarrow> nat \<Rightarrow> product list" where
  "categoryProductsForProduct similarCategoryProducts fallbackProducts limit =
     (if similarCategoryProducts \<noteq> [] then
        (if limit \<le> length similarCategoryProducts then take limit similarCategoryProducts
         else similarCategoryProducts
              @ take (limit - length similarCategoryProducts)
                  (filter (\<lambda>p. \<not> list_ex (\<lambda>sp. product_id sp = product_id p)
                                    similarCategoryProducts)
                     fallbackProducts))
      else fallbackProducts)"

paragraph \<open>Order-based recommendations\<close>

definition categoryIds_of :: "database \<Rightarrow> order \<Rightarrow> int list" where
  "categoryIds_of d ord =
     uniq (concat (map (\<lambda>item. case item_product d item of
                                  None \<Rightarrow> []
                                | Some p \<Rightarrow> map category_id (categories p))
                     (items ord)))"

definition similarCategoryProducts_order :: "env \<Rightarrow> order \<Rightarrow> nat \<Rightarrow> exn + product list" where
  "similarCategoryProducts_order e ord limit =
     prisma e OrderSimilarQuery
       (take (limit * 2)
          (filter (\<lambda>p. product_id p \<notin> set (map item_productId (items ord))
                       \<and> list_ex (\<lambda>c. category_id c \<in> set (categoryIds_of (db e) ord))
                            (categories p))
             (products (db e))))"

text \<open>
  What is returned from inside \<open>if (recommendedIds && recommendedIds.length > 0)\<close>;
  \<open>None\<close> when control leaves that block without a \<open>return\<close>.
\<close>

definition rankedForOrder :: "int list option \<Rightarrow> product list \<Rightarrow> nat \<Rightarrow> product list option" where
  "rankedForOrder recommendedIds similarCategoryProducts limit =
     (case recommendedIds of
        None \<Rightarrow> None
      | Some ids \<Rightarrow>
          if ids = [] then None
          else (let recommendedProducts =
                      take limit (List.map_filter (productsMap similarCategoryProducts) ids)
                in if min 2 limit \<le> length recommendedProducts then
                     (if length recommendedProducts < limit then
                        Some (recommendedProducts
                              @ take (limit - length recommendedProducts)
                                  (filter (\<lambda>p. product_id p \<notin> set ids) similarCategoryProducts))
                      else Some recommendedProducts)
                   else None))"

definition orderRecommendations_try ::
  "env \<Rightarrow> bool \<Rightarrow> int \<Rightarrow> nat \<Rightarrow> product list \<Rightarrow> (exn + product list) \<times> outbound list" where
  "orderRecommendations_try e useOllama orderId limit fallbackProducts =
     (case prisma e OrderQuery (find (\<lambda>row. order_id row = orderId) (orders (db e))) of
        Inl x \<Rightarrow> (Inl x, [])
      | Inr None \<Rightarrow> (Inr fallbackProducts, [])
      | Inr (Some ord) \<Rightarrow>
          if items ord = [] then (Inr fallbackProducts, [])
          else if categoryIds_of (db e) ord = [] then (Inr fallbackProducts, [])
          else (case similarCategoryProducts_order e ord limit of
                  Inl x \<Rightarrow> (Inl x, [])
                | Inr similar \<Rightarrow>
                    if useOllama \<and> 2 \<le> length similar then
                      (case getOllamaRecommendationsForOrder (ollama e) (db e) ord similar limit of
                         (Inl x, t) \<Rightarrow> (Inl x, t)
                       | (Inr recommendedIds, t) \<Rightarrow>
                           (case rankedForOrder recommendedIds similar limit of
                              Some recommended \<Rightarrow> (Inr recommended, t)
                            | None \<Rightarrow>
                                (Inr (categoryProductsForOrder similar fallbackProducts limit), t)))
                    else (Inr (categoryProductsForOrder similar fallbackProducts limit), [])))"

text \<open>The \<open>catch\<close> of the order block answers with \<open>fallbackProducts\<close>.\<close>

definition orderRecommendations ::
  "env \<Rightarrow> bool \<Rightarrow> int \<Rightarrow> nat \<Rightarrow> product list \<Rightarrow> product list \<times> outbound list" where
  "orderRecommendations e useOllama orderId limit fallbackProducts =
     (case orderRecommendations_try e useOllama orderId limit fallbackProducts of
        (Inl error, t) \<Rightarrow> (fallbackProducts, t)
      | (Inr result, t) \<Rightarrow> (result, t))"

paragraph \<open>Product-based recommendations\<close>

definition similarCategoryProducts :: "env \<Rightarrow> int \<Rightarrow> product \<Rightarrow> exn + product list" where
  "similarCategoryProducts e pid currentProduct =
     prisma e SimilarQuery
       (take 10
          (filter (\<lambda>p. product_id p \<noteq> pid
                       \<and> list_ex (\<lambda>c. category_id c \<in> set (map category_id (categories currentProduct)))
                            (categories p))
             (products (db e))))"

definition productsToRank :: "env \<Rightarrow> int \<Rightarrow> product list \<Rightarrow> nat \<Rightarrow> exn + product list" where
  "productsToRank e pid similar limit =
     (if length similar < limit then
        (case prisma e AdditionalQuery
                (take (limit * 2)
                   (orderBy_count_desc (db e)
                      (filter (\<lambda>p. product_id p \<noteq> pid
                                   \<and> product_id p \<notin> set (map product_id similar))
                         (products (db e))))) of
           Inl x \<Rightarrow> Inl x
         | Inr additionalProducts \<Rightarrow> Inr (similar @ additionalProducts))
      else Inr similar)"

definition rankedForProduct :: "int list option \<Rightarrow> product list \<Rightarrow> nat \<Rightarrow> product list option" where
  "rankedForProduct recommendedIds pool limit =
     (case recommendedIds of
        None \<Rightarrow> None
      | Some ids \<Rightarrow>
          if ids = [] then None
          else (let recommendedProducts = take limit (List.map_filter (productsMap pool) ids)
                in if limit \<le> length recommendedProducts then Some recommendedProducts
                   else Some (take limit
                                (recommendedProducts
                                 @ filter (\<lambda>p. product_id p \<notin> set ids) pool))))"

definition productRecommendations_try ::
  "env \<Rightarrow> bool \<Rightarrow> int \<Rightarrow> nat \<Rightarrow> product list \<Rightarrow> (exn + product list) \<times> outbound list" where
  "productRecommendations_try e useOllama pid limit fallbackProducts =
     (case prisma e CurrentProductQuery (find (\<lambda>p. product_id p = pid) (products (db e))) of
        Inl x \<Rightarrow> (Inl x, [])
      | Inr None \<Rightarrow> (Inr fallbackProducts, [])
      | Inr (Some currentProduct) \<Rightarrow>
          if categories currentProduct = [] then (Inr fallbackProducts, [])
          else (case similarCategoryProducts e pid currentProduct of
                  Inl x \<Rightarrow> (Inl x, [])
                | Inr similar \<Rightarrow>
                    (case productsToRank e pid similar limit of
                       Inl x \<Rightarrow> (Inl x, [])
                     | Inr pool \<Rightarrow>
                         if useOllama \<and> limit \<le> length pool then
                           (case getOllamaRecommendations (ollama e) currentProduct pool limit of
                              (Inl x, t) \<Rightarrow> (Inl x, t)
                            | (Inr recommendedIds, t) \<Rightarrow>
                                (case rankedForProduct recommendedIds pool limit of
                                   Some recommended \<Rightarrow> (Inr recommended, t)
                                 | None \<Rightarrow>
                                     (Inr (categoryProductsForProduct similar fallbackProducts limit), t)))
                         else (Inr (categoryProductsForProduct similar fallbackProducts limit), []))))"

definition productRecommendations ::
  "env \<Rightarrow> bool \<Rightarrow> int \<Rightarrow> nat \<Rightarrow> product list \<Rightarrow> product list \<times> outbound list" where
  "productRecommendations e useOllama pid limit fallbackProducts =
     (case productRecommendations_try e useOllama pid limit fallbackProducts of
        (Inl error, t) \<Rightarrow> (fallbackProducts, t)
      | (Inr result, t) \<Rightarrow> (result, t))"

paragraph \<open>The exported function\<close>

text \<open>
  \<open>useOllama\<close> is \<open>USE_OLLAMA && (await isOllamaAvailable())\<close>: the probe is sent only
  when the flag is on. An error raised before the two inner blocks reaches the outer
  \<open>catch\<close>, which returns the promise of \<open>getPopularProducts(limit)\<close>.
\<close>

definition useOllama_of :: "llm \<Rightarrow> bool \<times> outbound list" where
  "useOllama_of l = (if USE_OLLAMA l then isOllamaAvailable l else (False, []))"

definition getRecommendations ::
  "env \<Rightarrow> int option \<Rightarrow> int option \<Rightarrow> nat \<Rightarrow> (exn + product list) \<times> outbound list" where
  "getRecommendations e productId orderId limit =
     (case useOllama_of (ollama e) of
        (useOllama, t0) \<Rightarrow>
          (case fallbackProducts_query e productId limit of
             Inl error \<Rightarrow> (getPopularProducts e limit, t0)
           | Inr fallbackProducts \<Rightarrow>
               (case (if truthy orderId then orderId else None) of
                  Some oid \<Rightarrow>
                    (case orderRecommendations e useOllama oid limit fallbackProducts of
                       (result, t) \<Rightarrow> (Inr result, t0 @ t))
                | None \<Rightarrow>
                    (case (if truthy productId then productId else None) of
                       Some pid \<Rightarrow>
                         (case productRecommendations e useOllama pid limit fallbackProducts of
                            (result, t) \<Rightarrow> (Inr result, t0 @ t))
                     | None \<Rightarrow> (Inr fallbackProducts, t0)))))"

section \<open>The cache-based implementation\<close>

subsection \<open>Data\<close>

text \<open>
  The value of a document's \<open>_id\<close>. The order schema declares the product reference of
  an order item as an ObjectId; the product schema is not among the sources, so a
  numeric \<open>_id\<close> is covered as well. \<open>toString\<close> gives the hexadecimal text of an
  ObjectId and the decimal text of a number.
\<close>

datatype js_id = ObjectId string | Number int

fun digits_of :: "nat \<Rightarrow> string" where
  "digits_of n =
     (if n < 10 then [''0123456789'' ! n]
      else digits_of (n div 10) @ [''0123456789'' ! (n mod 10)])"

fun toString :: "js_id \<Rightarrow> string" where
  "toString (ObjectId hex) = hex"
| "toString (Number n) = (if n < 0 then CHR ''-'' # digits_of (nat (- n)) else digits_of (nat n))"

text \<open>
  \<open>p.id === id\<close> with \<open>id\<close> a number from \<open>parseInt\<close>: an ObjectId is an object and is
  never strictly equal to a number.
\<close>

fun strict_equals :: "js_id \<Rightarrow> int \<Rightarrow> bool" where
  "strict_equals (ObjectId hex) n = False"
| "strict_equals (Number m) n = (m = n)"

text \<open>\<open>o._id.equals(product._id)\<close>, where \<open>o._id\<close> is the ObjectId of an order item.\<close>

fun equals :: "string \<Rightarrow> js_id \<Rightarrow> bool" where
  "equals hex (ObjectId hex') = (hex = hex')"
| "equals hex (Number n) = False"

text \<open>
  A document of \<open>Product.find().lean()\<close> and a row of the order aggregation. A
  sustainability score is a double (the product routes store \<open>parseFloat\<close> of the form
  field, or 50); it is held here as the real number that double stands for.
\<close>

record product_doc =
  doc_id :: js_id
  doc_name :: string
  doc_category :: string
  doc_sustainabilityScore :: real

record order_count =
  group_id :: string
  group_orderCount :: int

record cached_product =
  cp_id :: js_id
  cp_name :: string
  cp_categories :: "string list"
  orderCount :: int
  sustainabilityScore :: real

text \<open>
  Arrays are objects: \<open>productsCache.data\<close> and the value returned by
  \<open>getProductsWithOrderCounts\<close> are one and the same array. The state therefore holds
  the arrays by reference, next to the two fields of \<open>productsCache\<close>.
\<close>

record cache_state =
  productsCache_data :: "nat option"
  productsCache_lastUpdate :: int
  arrays :: "nat \<Rightarrow> cached_product list"
  next_ref :: nat

text \<open>One visit to storage: the clock at that moment and what the two queries answer.\<close>

record storage_read =
  now :: int
  find_lean :: "exn + product_doc list"
  aggregate :: "exn + order_count list"

text \<open>
  The environment of one request: the model endpoint, the storage as seen by the body
  of \<open>getRecommendations\<close>, and as seen later by its \<open>catch\<close> block.
\<close>

record cache_env =
  c_ollama :: llm
  first_read :: storage_read
  handler_read :: storage_read

subsection \<open>getProductsWithOrderCounts\<close>

definition productsWithCounts :: "product_doc list \<Rightarrow> order_count list \<Rightarrow> cached_product list" where
  "productsWithCounts docs orderCounts =
     map (\<lambda>d. \<lparr>cp_id = doc_id d,
               cp_name = doc_name d,
               cp_categories = [doc_category d],
               orderCount = (case find (\<lambda>g. equals (group_id g) (doc_id d)) orderCounts of
                               None \<Rightarrow> 0
                             | Some g \<Rightarrow> group_orderCount g),
               sustainabilityScore = doc_sustainabilityScore d\<rparr>) docs"

definition getProductsWithOrderCounts ::
  "storage_read \<Rightarrow> cache_state \<Rightarrow> (exn + nat) \<times> cache_state" where
  "getProductsWithOrderCounts r s =
     (case (case productsCache_data s of
              None \<Rightarrow> None
            | Some a \<Rightarrow> if now r - productsCache_lastUpdate s < 300000 then Some a else None) of
        Some a \<Rightarrow> (Inr a, s)
      | None \<Rightarrow>
          (case find_lean r of
             Inl x \<Rightarrow> (Inl x, s)
           | Inr docs \<Rightarrow>
               (case aggregate r of
                  Inl x \<Rightarrow> (Inl x, s)
                | Inr orderCounts \<Rightarrow>
                    (Inr (next_ref s),
                     s\<lparr>arrays := (arrays s)(next_ref s := productsWithCounts docs orderCounts),
                       next_ref := Suc (next_ref s),
                       productsCache_data := Some (next_ref s),
                       productsCache_lastUpdate := now r\<rparr>))))"

text \<open>
  \<open>products.sort((a, b) => b.orderCount - a.orderCount)\<close> sorts the array in place
  (stably) and returns the same array.
\<close>

definition sort_in_place :: "nat \<Rightarrow> cache_state \<Rightarrow> cache_state" where
  "sort_in_place a s = s\<lparr>arrays := (arrays s)(a := sort_key (\<lambda>p. - orderCount p) (arrays s a))\<rparr>"

subsection \<open>getPopularProducts\<close>

definition getPopularProducts_cache ::
  "storage_read \<Rightarrow> nat \<Rightarrow> cache_state \<Rightarrow> (exn + cached_product list) \<times> cache_state" where
  "getPopularProducts_cache r limit s =
     (case getProductsWithOrderCounts r s of
        (Inl x, s1) \<Rightarrow> (Inl x, s1)
      | (Inr a, s1) \<Rightarrow>
          (case sort_in_place a s1 of
             s2 \<Rightarrow> (Inr (take limit (arrays s2 a)), s2)))"

subsection \<open>getOllamaRecommendations\<close>

definition getOllamaRecommendations_cache_try ::
  "llm \<Rightarrow> cached_product list \<Rightarrow> nat \<Rightarrow> exn + int list option" where
  "getOllamaRecommendations_cache_try l candidates limit =
     (case generate l of
        Rejected \<Rightarrow> Inl FetchError
      | Aborted \<Rightarrow> Inl AbortError
      | Responded ok body \<Rightarrow>
          if \<not> ok then Inr None
          else (case body of
                  NotJson \<Rightarrow> Inl SyntaxError
                | JsonObject None \<Rightarrow> Inl TypeError
                | JsonObject (Some response) \<Rightarrow>
                    (let numbers = match_digits [] response
                     in if numbers = [] then Inr None
                        else Inr (Some (take limit
                               (filter (\<lambda>i. list_ex (\<lambda>p. strict_equals (cp_id p) i) candidates)
                                  (map parseInt numbers)))))))"

definition getOllamaRecommendations_cache ::
  "llm \<Rightarrow> cached_product \<Rightarrow> cached_product list \<Rightarrow> nat
     \<Rightarrow> (exn + int list option) \<times> outbound list" where
  "getOllamaRecommendations_cache l currentProduct candidates limit =
     (if length candidates < limit then (Inr None, [])
      else (case getOllamaRecommendations_cache_try l candidates limit of
              Inl error \<Rightarrow> (Inr None, [GeneratePOST])
            | Inr ids \<Rightarrow> (Inr ids, [GeneratePOST])))"

subsection \<open>getRecommendations\<close>

text \<open>\<open>!productId\<close> on an optional string: \<open>undefined\<close> and the empty string are falsy.\<close>

definition given :: "string option \<Rightarrow> string option" where
  "given productId = (case productId of None \<Rightarrow> None | Some v \<Rightarrow> if v = [] then None else Some v)"

text \<open>
  \<open>Math.abs(a - b) <= 20\<close> on doubles. The difference is rounded to the nearest double
  before it is compared. The double after 20 is \<open>20 + 2^-48\<close> and the point halfway
  rounds to 20, whose last bit is even; so the rounded difference is at most 20 exactly
  when the exact one is at most \<open>20 + 2^-49\<close>.
\<close>

definition scores_close :: "real \<Rightarrow> real \<Rightarrow> bool" where
  "scores_close a b = (\<bar>a - b\<bar> \<le> 20 + 1 / 2 ^ 49)"

definition similarProducts ::
  "cached_product list \<Rightarrow> string \<Rightarrow> cached_product \<Rightarrow> nat \<Rightarrow> cached_product list" where
  "similarProducts ps pid currentProduct limit =
     take (limit * 2)
       (filter (\<lambda>p. toString (cp_id p) \<noteq> pid
                    \<and> list_ex (\<lambda>c. c \<in> set (cp_categories currentProduct)) (cp_categories p)
                    \<and> scores_close (sustainabilityScore p) (sustainabilityScore currentProduct))
          ps)"

text \<open>
  What is returned from inside \<open>if (recommendedIds?.length >= 2)\<close>; \<open>None\<close> when
  control leaves that block without a \<open>return\<close>.
\<close>

definition rankedForProduct_cache ::
  "int list option \<Rightarrow> cached_product list \<Rightarrow> nat \<Rightarrow> cached_product list option" where
  "rankedForProduct_cache recommendedIds similar limit =
     (case recommendedIds of
        None \<Rightarrow> None
      | Some ids \<Rightarrow>
          if 2 \<le> length ids then
            (let recommendations =
                   take limit
                     (List.map_filter (\<lambda>i. find (\<lambda>p. strict_equals (cp_id p) i) similar) ids)
             in if length recommendations = limit then Some recommendations else None)
          else None)"

text \<open>The last statement of the \<open>try\<close> block.\<close>

definition similarOrFallback ::
  "cached_product list \<Rightarrow> cached_product list \<Rightarrow> nat \<Rightarrow> cached_product list" where
  "similarOrFallback similar fallbackProducts limit =
     (if limit \<le> length similar then take limit similar else fallbackProducts)"

text \<open>
  The body of the \<open>try\<close> block. The condition of the ranking attempt is evaluated from
  left to right: the probe is sent only when \<open>USE_OLLAMA\<close> holds, the ranking request
  only when the probe succeeded and there are at least \<open>limit\<close> similar products.
\<close>

definition getRecommendations_cache_try ::
  "cache_env \<Rightarrow> string option \<Rightarrow> nat \<Rightarrow> cache_state
     \<Rightarrow> ((exn + cached_product list) \<times> outbound list) \<times> cache_state" where
  "getRecommendations_cache_try e productId limit s =
     (case getProductsWithOrderCounts (first_read e) s of
        (Inl x, s1) \<Rightarrow> ((Inl x, []), s1)
      | (Inr a, s1) \<Rightarrow>
          (case sort_in_place a s1 of
             s2 \<Rightarrow>
               (let fallbackProducts = take limit (arrays s2 a) in
                case given productId of
                  None \<Rightarrow> ((Inr fallbackProducts, []), s2)
                | Some pid \<Rightarrow>
                    (case find (\<lambda>p. toString (cp_id p) = pid) (arrays s2 a) of
                       None \<Rightarrow> ((Inr fallbackProducts, []), s2)
                     | Some currentProduct \<Rightarrow>
                         (let similar = similarProducts (arrays s2 a) pid currentProduct limit in
                          case useOllama_of (c_ollama e) of
                            (available, t0) \<Rightarrow>
                              if available \<and> limit \<le> length similar then
                                (case getOllamaRecommendations_cache (c_ollama e) currentProduct
                                        similar limit of
                                   (Inl x, t) \<Rightarrow> ((Inl x, t0 @ t), s2)
                                 | (Inr recommendedIds, t) \<Rightarrow>
                                     (case rankedForProduct_cache recommendedIds similar limit of
                                        Some recommendations \<Rightarrow> ((Inr recommendations, t0 @ t), s2)
                                      | None \<Rightarrow>
                                          ((Inr (similarOrFallback similar fallbackProducts limit),
                                            t0 @ t), s2)))
                              else ((Inr (similarOrFallback similar fallbackProducts limit), t0),
                                    s2))))))"

text \<open>The \<open>catch\<close> block returns the promise of \<open>getPopularProducts(limit)\<close>.\<close>

definition getRecommendations_cache ::
  "cache_env \<Rightarrow> string option \<Rightarrow> nat \<Rightarrow> cache_state
     \<Rightarrow> ((exn + cached_product list) \<times> outbound list) \<times> cache_state" where
  "getRecommendations_cache e productId limit s =
     (case getRecommendations_cache_try e productId limit s of
        ((Inl error, t), s1) \<Rightarrow>
          (case getPopularProducts_cache (handler_read e) limit s1 of
             (result, s2) \<Rightarrow> ((result, t), s2))
      | ((Inr result, t), s1) \<Rightarrow> ((Inr result, t), s1))"

text \<open>The array that \<open>productsCache.data\<close> refers to, if any.\<close>

definition cached_snapshot :: "cache_state \<Rightarrow> cached_product list option" where
  "cached_snapshot s = map_option (arrays s) (productsCache_data s)"

section \<open>Vocabulary of the statements and sample inputs\<close>

text \<open>
  The outcomes of the ranking request that count as a failed call: a network error, a
  timeout, a status that is not a success, a body that is not JSON, and an answer whose
  \<open>response\<close> text is missing or empty.
\<close>

fun failed_call :: "fetch_outcome \<Rightarrow> bool" where
  "failed_call Rejected = True"
| "failed_call Aborted = True"
| "failed_call (Responded False body) = True"
| "failed_call (Responded True NotJson) = True"
| "failed_call (Responded True (JsonObject None)) = True"
| "failed_call (Responded True (JsonObject (Some response))) = (response = [])"

text \<open>A visit to storage in which both queries are answered.\<close>

definition answers :: "storage_read \<Rightarrow> bool" where
  "answers r =
     (case find_lean r of
        Inl x \<Rightarrow> False
      | Inr docs \<Rightarrow> (case aggregate r of Inl x \<Rightarrow> False | Inr orderCounts \<Rightarrow> True))"

text \<open>A model endpoint that is switched off, one that is down, and one that answers.\<close>

definition llm_off :: llm where
  "llm_off = \<lparr>USE_OLLAMA = False, probe = Rejected, generate = Rejected\<rparr>"

definition llm_down :: llm where
  "llm_down = \<lparr>USE_OLLAMA = True, probe = Aborted, generate = Aborted\<rparr>"

definition llm_says :: "string \<Rightarrow> llm" where
  "llm_says response =
     \<lparr>USE_OLLAMA = True, probe = Responded True NotJson,
      generate = Responded True (JsonObject (Some response))\<rparr>"

text \<open>A small Prisma catalogue: products 1 to 5 in category A, product 6 in category B.\<close>

definition catA :: category where
  "catA = \<lparr>category_id = 1, category_name = ''A''\<rparr>"

definition catB :: category where
  "catB = \<lparr>category_id = 2, category_name = ''B''\<rparr>"

definition sku :: "int \<Rightarrow> category \<Rightarrow> product" where
  "sku i c = \<lparr>product_id = i, name = ''item'', description = None, categories = [c]\<rparr>"

definition bought :: "int \<Rightarrow> int list \<Rightarrow> order" where
  "bought i ps = \<lparr>order_id = i, items = map (\<lambda>p. \<lparr>item_productId = p\<rparr>) ps\<rparr>"

definition shop :: database where
  "shop = \<lparr>products = [sku 1 catA, sku 2 catA, sku 3 catA, sku 4 catA, sku 5 catA,
                        sku 6 catB],
           orders = [bought 1 [1]]\<rparr>"

definition corner_shop :: database where
  "corner_shop = \<lparr>products = [sku 1 catA, sku 2 catA, sku 6 catB], orders = [bought 1 [1]]\<rparr>"

definition storage_up :: "query \<Rightarrow> bool" where
  "storage_up q = False"

definition storage_down :: "query \<Rightarrow> bool" where
  "storage_down q = True"

definition fallback_query_down :: "query \<Rightarrow> bool" where
  "fallback_query_down q = (q = FallbackQuery)"

text \<open>A storage in which one query rejects and the others are answered.\<close>

definition only_fails :: "query \<Rightarrow> query \<Rightarrow> bool" where
  "only_fails q q' = (q' = q)"

text \<open>
  A catalogue whose table order is not the order of the categories, with a product that
  has no category; an order with an item whose product row is gone, an order without
  items, and an order whose only item has no product row.
\<close>

definition plain :: "int \<Rightarrow> product" where
  "plain i = \<lparr>product_id = i, name = ''item'', description = None, categories = []\<rparr>"

definition side_shop :: database where
  "side_shop = \<lparr>products = [sku 1 catA, sku 6 catB, sku 2 catA, sku 3 catA, plain 4],
                orders = [bought 7 [1, 99], bought 8 [], bought 9 [99]]\<rparr>"

text \<open>
  Two products have a category in common; a product has a category in common with a
  product of an order; a product is among the products of an order.
\<close>

definition shares_category :: "product \<Rightarrow> product \<Rightarrow> bool" where
  "shares_category p q =
     (category_id ` set (categories p) \<inter> category_id ` set (categories q) \<noteq> {})"

definition shares_category_with_order :: "database \<Rightarrow> order \<Rightarrow> product \<Rightarrow> bool" where
  "shares_category_with_order d ord p =
     list_ex (\<lambda>item. case item_product d item of
                       None \<Rightarrow> False
                     | Some q \<Rightarrow> shares_category p q)
       (items ord)"

definition in_order :: "order \<Rightarrow> product \<Rightarrow> bool" where
  "in_order ord p = (product_id p \<in> item_productId ` set (items ord))"

text \<open>
  A small Mongo catalogue with the order counts of its products, an outage of the
  storage, the empty cache of a module just loaded, and the storage as it is found later.
\<close>

definition doc :: "string \<Rightarrow> string \<Rightarrow> real \<Rightarrow> product_doc" where
  "doc i c score =
     \<lparr>doc_id = ObjectId i, doc_name = ''item'', doc_category = c, doc_sustainabilityScore = score\<rparr>"

definition cached :: "string \<Rightarrow> string \<Rightarrow> int \<Rightarrow> real \<Rightarrow> cached_product" where
  "cached i c n score =
     \<lparr>cp_id = ObjectId i, cp_name = ''item'', cp_categories = [c], orderCount = n,
      sustainabilityScore = score\<rparr>"

definition catalogue :: storage_read where
  "catalogue =
     \<lparr>now = 1000000,
      find_lean = Inr [doc ''a1'' ''A'' 50, doc ''a2'' ''A'' 60, doc ''a3'' ''B'' 50,
                       doc ''a4'' ''A'' 90, doc ''a5'' ''B'' 40],
      aggregate = Inr [\<lparr>group_id = ''a3'', group_orderCount = 7\<rparr>,
                       \<lparr>group_id = ''a5'', group_orderCount = 3\<rparr>,
                       \<lparr>group_id = ''a4'', group_orderCount = 2\<rparr>]\<rparr>"

definition outage :: storage_read where
  "outage = \<lparr>now = 1000000, find_lean = Inl StorageError, aggregate = Inl StorageError\<rparr>"

text \<open>The id of a product is an ObjectId.\<close>

fun is_ObjectId :: "js_id \<Rightarrow> bool" where
  "is_ObjectId (ObjectId hex) = True"
| "is_ObjectId (Number n) = False"

definition cold :: cache_state where
  "cold = \<lparr>productsCache_data = None, productsCache_lastUpdate = 0, arrays = (\<lambda>a. []),
           next_ref = 0\<rparr>"

definition restocked :: storage_read where
  "restocked =
     \<lparr>now = 2000000,
      find_lean = Inr [doc ''a1'' ''A'' 50, doc ''a9'' ''A'' 55],
      aggregate = Inr [\<lparr>group_id = ''a9'', group_orderCount = 4\<rparr>]\<rparr>"

text \<open>
  The states of the module-level cache. It starts as \<open>{ data: null, lastUpdate: 0 }\<close>,
  and \<open>getProductsWithOrderCounts\<close>, the only function that writes it, is called by the
  two exported functions alone.
\<close>

inductive reachable :: "cache_state \<Rightarrow> bool" where
  start: "reachable cold"
| popular: "reachable s \<Longrightarrow> reachable (snd (getPopularProducts_cache r limit s))"
| recommend: "reachable s \<Longrightarrow> reachable (snd (getRecommendations_cache e productId limit s))"

text \<open>The cached array, if there is one, is in descending order of \<open>orderCount\<close>.\<close>

definition cache_sorted :: "cache_state \<Rightarrow> bool" where
  "cache_sorted s =
     (case productsCache_data s of
        None \<Rightarrow> True
      | Some a \<Rightarrow> sorted (map (\<lambda>p. - orderCount p) (arrays s a)))"

section \<open>Unfolding the embedding on concrete inputs\<close>

lemmas ranking_defs =
  getOllamaRecommendations_def getOllamaRecommendations_try_def
  getOllamaRecommendationsForOrder_def getOllamaRecommendationsForOrder_try_def
  getOllamaRecommendations_cache_def getOllamaRecommendations_cache_try_def
  orderPrompt_error_def item_product_def parseInt_def digit_value_def is_digit_def is_word_def
  id_label_def to_lower_def

lemmas prisma_defs =
  getRecommendations_def useOllama_of_def isOllamaAvailable_def fallbackProducts_query_def
  getPopularProducts_def prisma_def truthy_def orderBy_count_desc_def orderItems_count_def
  orderRecommendations_def orderRecommendations_try_def similarCategoryProducts_order_def
  categoryIds_of_def item_product_def uniq_def rankedForOrder_def categoryProductsForOrder_def
  categoryProductsForProduct_def productRecommendations_def productRecommendations_try_def
  similarCategoryProducts_def productsToRank_def rankedForProduct_def productsMap_def
  List.map_filter_def Let_def

lemmas cache_defs =
  getRecommendations_cache_def getRecommendations_cache_try_def getPopularProducts_cache_def
  getProductsWithOrderCounts_def productsWithCounts_def sort_in_place_def given_def
  similarProducts_def scores_close_def rankedForProduct_cache_def similarOrFallback_def
  useOllama_of_def isOllamaAvailable_def cached_snapshot_def List.map_filter_def Let_def

lemmas input_defs =
  llm_off_def llm_down_def llm_says_def catA_def catB_def sku_def bought_def shop_def
  corner_shop_def storage_up_def storage_down_def fallback_query_down_def doc_def cached_def
  catalogue_def outage_def cold_def restocked_def only_fails_def plain_def side_shop_def

section \<open>The ranking functions\<close>

lemma getOllamaRecommendations_total:
  "\<exists>ids t. getOllamaRecommendations l cur pool limit = (Inr ids, t)"
  by (simp add: getOllamaRecommendations_def split: sum.splits)

lemma getOllamaRecommendationsForOrder_total:
  "\<exists>ids t. getOllamaRecommendationsForOrder l d ord pool limit = (Inr ids, t)"
  by (simp add: getOllamaRecommendationsForOrder_def split: sum.splits option.splits)

lemma getOllamaRecommendations_cache_total:
  "\<exists>ids t. getOllamaRecommendations_cache l cur pool limit = (Inr ids, t)"
  by (simp add: getOllamaRecommendations_cache_def split: sum.splits)

lemma getOllamaRecommendations_failed_call:
  assumes "failed_call (generate l)"
  shows "fst (getOllamaRecommendations l cur pool limit) = Inr None"
proof (cases "generate l")
  case (Responded ok body)
  with assms show ?thesis
    by (cases ok; cases body rule: json_body.exhaust)
       (auto simp: getOllamaRecommendations_def getOllamaRecommendations_try_def
             split: option.splits)
qed (simp_all add: getOllamaRecommendations_def getOllamaRecommendations_try_def)

lemma getOllamaRecommendationsForOrder_try_failed_call:
  assumes "failed_call (generate l)"
  shows "getOllamaRecommendationsForOrder_try l pool limit = Inr None
       \<or> (\<exists>x. getOllamaRecommendationsForOrder_try l pool limit = Inl x)"
proof (cases "generate l")
  case (Responded ok body)
  with assms show ?thesis
    by (cases ok; cases body rule: json_body.exhaust)
       (auto simp: getOllamaRecommendationsForOrder_try_def split: option.splits)
qed (simp_all add: getOllamaRecommendationsForOrder_try_def)

lemma getOllamaRecommendationsForOrder_failed_call:
  assumes "failed_call (generate l)"
  shows "fst (getOllamaRecommendationsForOrder l d ord pool limit) = Inr None"
  using getOllamaRecommendationsForOrder_try_failed_call [OF assms, of pool limit]
  by (auto simp: getOllamaRecommendationsForOrder_def split: option.splits)

lemma getOllamaRecommendations_cache_failed_call:
  assumes "failed_call (generate l)"
  shows "fst (getOllamaRecommendations_cache l cur pool limit) = Inr None"
proof (cases "generate l")
  case (Responded ok body)
  with assms show ?thesis
    by (cases ok; cases body rule: json_body.exhaust)
       (auto simp: getOllamaRecommendations_cache_def getOllamaRecommendations_cache_try_def
             split: option.splits)
qed (simp_all add: getOllamaRecommendations_cache_def getOllamaRecommendations_cache_try_def)

text \<open>
  C8. Each of the three ranking functions returns to its caller and never raises: with
  fewer candidates than \<open>limit\<close> it answers \<open>null\<close> at once and sends no request, and
  after a network error, a timeout, a status that is not a success, a body that is not
  JSON or an empty answer it answers \<open>null\<close> as well.
\<close>

theorem ranking_returns_null_and_never_throws:
  "(\<exists>ids t. getOllamaRecommendations l cur pool limit = (Inr ids, t))
   \<and> (\<exists>ids t. getOllamaRecommendationsForOrder l d ord pool limit = (Inr ids, t))
   \<and> (\<exists>ids t. getOllamaRecommendations_cache l ccur cpool limit = (Inr ids, t))
   \<and> (length pool < limit \<longrightarrow>
        getOllamaRecommendations l cur pool limit = (Inr None, [])
        \<and> getOllamaRecommendationsForOrder l d ord pool limit = (Inr None, []))
   \<and> (length cpool < limit \<longrightarrow>
        getOllamaRecommendations_cache l ccur cpool limit = (Inr None, []))
   \<and> (failed_call (generate l) \<longrightarrow>
        fst (getOllamaRecommendations l cur pool limit) = Inr None
        \<and> fst (getOllamaRecommendationsForOrder l d ord pool limit) = Inr None
        \<and> fst (getOllamaRecommendations_cache l ccur cpool limit) = Inr None)"
proof -
  have short: "length pool < limit \<longrightarrow>
        getOllamaRecommendations l cur pool limit = (Inr None, [])
        \<and> getOllamaRecommendationsForOrder l d ord pool limit = (Inr None, [])"
    by (simp add: getOllamaRecommendations_def getOllamaRecommendationsForOrder_def)
  have cshort: "length cpool < limit \<longrightarrow>
        getOllamaRecommendations_cache l ccur cpool limit = (Inr None, [])"
    by (simp add: getOllamaRecommendations_cache_def)
  show ?thesis
    using short cshort
      getOllamaRecommendations_total [of l cur pool limit]
      getOllamaRecommendationsForOrder_total [of l d ord pool limit]
      getOllamaRecommendations_cache_total [of l ccur cpool limit]
      getOllamaRecommendations_failed_call [of l cur pool limit]
      getOllamaRecommendationsForOrder_failed_call [of l d ord pool limit]
      getOllamaRecommendations_cache_failed_call [of l ccur cpool limit]
    by blast
qed

theorem ranking_returns_null_and_never_throws_witness:
  "length [sku 2 catA] < (4::nat)
   \<and> getOllamaRecommendations (llm_says ''2, 3'') (sku 1 catA) [sku 2 catA] 4 = (Inr None, [])
   \<and> getOllamaRecommendationsForOrder (llm_says ''2, 3'') shop (bought 1 [1]) [sku 2 catA] 4
       = (Inr None, [])
   \<and> failed_call (generate llm_down)
   \<and> \<not> length [sku 2 catA, sku 3 catA] < (2::nat)
   \<and> fst (getOllamaRecommendations llm_down (sku 1 catA) [sku 2 catA, sku 3 catA] 2) = Inr None
   \<and> fst (getOllamaRecommendationsForOrder llm_down shop (bought 1 [1]) [sku 2 catA, sku 3 catA] 2)
       = Inr None"
proof -
  have short: "length [sku 2 catA] < (4::nat)"
    by simp
  have failed: "failed_call (generate llm_down)"
    by (simp add: llm_down_def)
  from short
    ranking_returns_null_and_never_throws
      [where l = "llm_says ''2, 3''" and cur = "sku 1 catA" and pool = "[sku 2 catA]"
         and limit = 4 and d = shop and ord = "bought 1 [1]"]
  have "getOllamaRecommendations (llm_says ''2, 3'') (sku 1 catA) [sku 2 catA] 4 = (Inr None, [])
        \<and> getOllamaRecommendationsForOrder (llm_says ''2, 3'') shop (bought 1 [1]) [sku 2 catA] 4
            = (Inr None, [])"
    by blast
  moreover from failed
    ranking_returns_null_and_never_throws
      [where l = llm_down and cur = "sku 1 catA" and pool = "[sku 2 catA, sku 3 catA]"
         and limit = 2 and d = shop and ord = "bought 1 [1]"]
  have "fst (getOllamaRecommendations llm_down (sku 1 catA) [sku 2 catA, sku 3 catA] 2) = Inr None
        \<and> fst (getOllamaRecommendationsForOrder llm_down shop (bought 1 [1]) [sku 2 catA, sku 3 catA] 2)
            = Inr None"
    by blast
  ultimately show ?thesis
    using short failed by simp
qed

section \<open>A switched-off model endpoint\<close>

lemma orderRecommendations_without_ollama:
  "orderRecommendations (e\<lparr>ollama := l\<rparr>) False oid limit fb
     = (fst (orderRecommendations e False oid limit fb), [])"
  by (simp add: orderRecommendations_def orderRecommendations_try_def prisma_def
        similarCategoryProducts_order_def
      split: option.splits)

lemma productRecommendations_without_ollama:
  "productRecommendations (e\<lparr>ollama := l\<rparr>) False pid limit fb
     = (fst (productRecommendations e False pid limit fb), [])"
  by (simp add: productRecommendations_def productRecommendations_try_def prisma_def
        similarCategoryProducts_def productsToRank_def
      split: option.splits)

lemma getRecommendations_disabled:
  assumes "\<not> USE_OLLAMA (ollama e)" and "\<not> USE_OLLAMA l"
  shows "getRecommendations (e\<lparr>ollama := l\<rparr>) productId orderId limit
           = (fst (getRecommendations e productId orderId limit), [])"
proof -
  have same: "fallbackProducts_query (e\<lparr>ollama := l\<rparr>) productId limit
                = fallbackProducts_query e productId limit"
    "getPopularProducts (e\<lparr>ollama := l\<rparr>) limit = getPopularProducts e limit"
    by (simp_all add: fallbackProducts_query_def getPopularProducts_def prisma_def)
  have self_o: "orderRecommendations e False oid limit fb
                  = (fst (orderRecommendations e False oid limit fb), [])" for oid fb
    using orderRecommendations_without_ollama [where e = e and l = "ollama e"] by simp
  have self_p: "productRecommendations e False pid limit fb
                  = (fst (productRecommendations e False pid limit fb), [])" for pid fb
    using productRecommendations_without_ollama [where e = e and l = "ollama e"] by simp
  show ?thesis
    using assms
    unfolding getRecommendations_def useOllama_of_def same
    by (simp add: orderRecommendations_without_ollama productRecommendations_without_ollama
          split: sum.splits option.splits prod.splits)
qed

lemma getRecommendations_cache_disabled:
  assumes "\<not> USE_OLLAMA (c_ollama e)" and "\<not> USE_OLLAMA l"
  shows "getRecommendations_cache (e\<lparr>c_ollama := l\<rparr>) productId limit s
           = ((fst (fst (getRecommendations_cache e productId limit s)), []),
              snd (getRecommendations_cache e productId limit s))"
  using assms
  by (simp add: getRecommendations_cache_def getRecommendations_cache_try_def useOllama_of_def
        Let_def
      split: sum.splits option.splits prod.splits)

text \<open>
  C9. With the flag \<open>USE_OLLAMA\<close> off, a call of \<open>getRecommendations\<close> (either
  implementation) sends neither the probe nor a ranking request, and its result does not
  depend on what the endpoint would have answered: it is the same for every probe outcome
  and every ranking outcome, hence computed from storage alone.
\<close>

theorem disabled_llm_is_never_called:
  "(\<not> USE_OLLAMA (ollama e) \<longrightarrow>
      snd (getRecommendations e productId orderId limit) = []
      \<and> fst (getRecommendations
                (e\<lparr>ollama := \<lparr>USE_OLLAMA = False, probe = pr, generate = g\<rparr>\<rparr>)
                productId orderId limit)
          = fst (getRecommendations e productId orderId limit))
   \<and> (\<not> USE_OLLAMA (c_ollama ce) \<longrightarrow>
      snd (fst (getRecommendations_cache ce cproductId limit s)) = []
      \<and> getRecommendations_cache
            (ce\<lparr>c_ollama := \<lparr>USE_OLLAMA = False, probe = pr, generate = g\<rparr>\<rparr>)
            cproductId limit s
          = getRecommendations_cache ce cproductId limit s)"
proof (intro conjI impI)
  assume off: "\<not> USE_OLLAMA (ollama e)"
  have self: "e\<lparr>ollama := ollama e\<rparr> = e"
    by simp
  from getRecommendations_disabled [OF off off, of productId orderId limit]
  show "snd (getRecommendations e productId orderId limit) = []"
    unfolding self by (metis snd_conv)
next
  assume off: "\<not> USE_OLLAMA (ollama e)"
  show "fst (getRecommendations
               (e\<lparr>ollama := \<lparr>USE_OLLAMA = False, probe = pr, generate = g\<rparr>\<rparr>)
               productId orderId limit)
          = fst (getRecommendations e productId orderId limit)"
    by (simp add: getRecommendations_disabled [OF off])
next
  assume off: "\<not> USE_OLLAMA (c_ollama ce)"
  have self: "ce\<lparr>c_ollama := c_ollama ce\<rparr> = ce"
    by simp
  from getRecommendations_cache_disabled [OF off off, of cproductId limit s]
  show "snd (fst (getRecommendations_cache ce cproductId limit s)) = []"
    unfolding self by (metis fst_conv snd_conv)
next
  assume off: "\<not> USE_OLLAMA (c_ollama ce)"
  have self: "ce\<lparr>c_ollama := c_ollama ce\<rparr> = ce"
    by simp
  from getRecommendations_cache_disabled [OF off off, of cproductId limit s]
  have "getRecommendations_cache ce cproductId limit s
          = ((fst (fst (getRecommendations_cache ce cproductId limit s)), []),
             snd (getRecommendations_cache ce cproductId limit s))"
    unfolding self .
  then show "getRecommendations_cache
               (ce\<lparr>c_ollama := \<lparr>USE_OLLAMA = False, probe = pr, generate = g\<rparr>\<rparr>)
               cproductId limit s
             = getRecommendations_cache ce cproductId limit s"
    by (simp add: getRecommendations_cache_disabled [OF off])
qed

theorem disabled_llm_is_never_called_witness:
  "\<not> USE_OLLAMA (ollama \<lparr>ollama = llm_off, db = shop, storage_fails = storage_up\<rparr>)
   \<and> snd (getRecommendations \<lparr>ollama = llm_off, db = shop, storage_fails = storage_up\<rparr>
             (Some 1) None 4) = []
   \<and> fst (getRecommendations
             (\<lparr>ollama = llm_off, db = shop, storage_fails = storage_up\<rparr>
                \<lparr>ollama := \<lparr>USE_OLLAMA = False, probe = Responded True NotJson,
                             generate = Responded True (JsonObject (Some ''5, 4, 3, 2''))\<rparr>\<rparr>)
             (Some 1) None 4)
       = fst (getRecommendations \<lparr>ollama = llm_off, db = shop, storage_fails = storage_up\<rparr>
                (Some 1) None 4)
   \<and> \<not> USE_OLLAMA (c_ollama \<lparr>c_ollama = llm_off, first_read = catalogue, handler_read = catalogue\<rparr>)
   \<and> snd (fst (getRecommendations_cache
                  \<lparr>c_ollama = llm_off, first_read = catalogue, handler_read = catalogue\<rparr>
                  (Some ''a1'') 4 cold)) = []"
proof -
  have off: "\<not> USE_OLLAMA (ollama \<lparr>ollama = llm_off, db = shop, storage_fails = storage_up\<rparr>)"
    by (simp add: llm_off_def)
  have coff: "\<not> USE_OLLAMA (c_ollama \<lparr>c_ollama = llm_off, first_read = catalogue,
                                        handler_read = catalogue\<rparr>)"
    by (simp add: llm_off_def)
  show ?thesis
    using off coff
      disabled_llm_is_never_called
        [of "\<lparr>ollama = llm_off, db = shop, storage_fails = storage_up\<rparr>" "Some 1" None 4
            "Responded True NotJson" "Responded True (JsonObject (Some ''5, 4, 3, 2''))"
            "\<lparr>c_ollama = llm_off, first_read = catalogue, handler_read = catalogue\<rparr>"
            "Some ''a1''" cold]
    by blast
qed

section \<open>Purchased products and the seed in the result\<close>

text \<open>
  C2. The claim fails on the code. Order 1 of the sample catalogue holds product 1; the
  only other product of its category is product 2. The order path pads the single
  category match with \<open>fallbackProducts\<close>, which were selected without looking at the
  order, so the purchased product 1 comes back as a recommendation. In the cache-based
  file the popularity list is not filtered at all: asked for products like \<open>a3\<close>, it
  answers with \<open>a3\<close> itself in first place.
\<close>

theorem purchased_product_is_recommended:
  "fst (getRecommendations \<lparr>ollama = llm_off, db = corner_shop, storage_fails = storage_up\<rparr>
          None (Some 1) 4)
     = Inr [sku 2 catA, sku 1 catA, sku 6 catB]
   \<and> map item_productId (items (bought 1 [1])) = [1]
   \<and> fst (fst (getRecommendations_cache
                  \<lparr>c_ollama = llm_off, first_read = catalogue, handler_read = catalogue\<rparr>
                  (Some ''a3'') 2 cold))
     = Inr [cached ''a3'' ''B'' 7 50, cached ''a5'' ''B'' 3 40]"
  by (simp add: prisma_defs cache_defs input_defs)

section \<open>Length and duplicates of the result\<close>

lemma length_categoryProductsForOrder:
  "length fb \<le> limit \<Longrightarrow> length (categoryProductsForOrder similar fb limit) \<le> limit"
  by (auto simp: categoryProductsForOrder_def)

lemma length_categoryProductsForProduct:
  "length fb \<le> limit \<Longrightarrow> length (categoryProductsForProduct similar fb limit) \<le> limit"
  by (auto simp: categoryProductsForProduct_def)

lemma length_rankedForOrder:
  "rankedForOrder ids similar limit = Some r \<Longrightarrow> length r \<le> limit"
  by (auto simp: rankedForOrder_def Let_def split: option.splits if_splits)

lemma length_rankedForProduct:
  "rankedForProduct ids pool limit = Some r \<Longrightarrow> length r \<le> limit"
  by (auto simp: rankedForProduct_def Let_def split: option.splits if_splits)

lemma length_orderRecommendations:
  assumes "length fb \<le> limit"
  shows "length (fst (orderRecommendations e u oid limit fb)) \<le> limit"
  using assms length_categoryProductsForOrder [OF assms]
  by (auto simp: orderRecommendations_def orderRecommendations_try_def
           split: sum.splits option.splits prod.splits if_splits
           dest: length_rankedForOrder)

lemma length_productRecommendations:
  assumes "length fb \<le> limit"
  shows "length (fst (productRecommendations e u pid limit fb)) \<le> limit"
  using assms length_categoryProductsForProduct [OF assms]
  by (auto simp: productRecommendations_def productRecommendations_try_def
           split: sum.splits option.splits prod.splits if_splits
           dest: length_rankedForProduct)

text \<open>The part of C3 that holds: no result of either file is longer than \<open>limit\<close>.\<close>

lemma length_getRecommendations:
  assumes "fst (getRecommendations e productId orderId limit) = Inr ps"
  shows "length ps \<le> limit"
proof -
  have fb: "fallbackProducts_query e productId limit = Inr fb \<Longrightarrow> length fb \<le> limit" for fb
    by (auto simp: fallbackProducts_query_def prisma_def split: if_splits)
  have pop: "getPopularProducts e limit = Inr r \<Longrightarrow> length r \<le> limit" for r
    by (auto simp: getPopularProducts_def prisma_def split: if_splits)
  show ?thesis
    using assms fb pop
      length_orderRecommendations [of _ limit e] length_productRecommendations [of _ limit e]
    by (auto simp: getRecommendations_def split: sum.splits option.splits prod.splits if_splits)
       (metis fst_conv)+
qed

lemma length_getPopularProducts_cache:
  "fst (getPopularProducts_cache r limit s) = Inr ps \<Longrightarrow> length ps \<le> limit"
  by (auto simp: getPopularProducts_cache_def split: prod.splits sum.splits)

lemma length_getRecommendations_cache:
  assumes "fst (fst (getRecommendations_cache e productId limit s)) = Inr ps"
  shows "length ps \<le> limit"
proof (cases "getRecommendations_cache_try e productId limit s")
  case (Pair rt s1)
  obtain r t where rt: "rt = (r, t)"
    by (cases rt)
  show ?thesis
  proof (cases r)
    case (Inl x)
    with Pair rt assms length_getPopularProducts_cache [of "handler_read e" limit s1 ps]
    show ?thesis
      by (auto simp: getRecommendations_cache_def split: prod.splits)
  next
    case (Inr result)
    with Pair rt assms have "result = ps"
      by (simp add: getRecommendations_cache_def)
    with Pair rt Inr show ?thesis
      by (auto simp: getRecommendations_cache_try_def Let_def rankedForProduct_cache_def
            similarOrFallback_def
          split: prod.splits sum.splits option.splits if_splits)
  qed
qed

text \<open>
  C3. The claim fails on the code where it speaks of repeated ids. The model answers
  \<open>2, 2, 3, 4\<close> for a request seeded with product 1 and \<open>limit = 4\<close>; all four numbers
  are ids of candidates, so the ranking is accepted, each id is looked up in turn, and
  product 2 is returned twice.
\<close>

theorem repeated_id_is_returned_twice:
  "fst (getRecommendations
          \<lparr>ollama = llm_says ''Recommended product IDs: 2, 2, 3, 4'', db = shop,
            storage_fails = storage_up\<rparr>
          (Some 1) None 4)
     = Inr [sku 2 catA, sku 2 catA, sku 3 catA, sku 4 catA]
   \<and> \<not> distinct (map product_id [sku 2 catA, sku 2 catA, sku 3 catA, sku 4 catA])"
  by (simp add: prisma_defs ranking_defs input_defs)

section \<open>Errors that reach the caller\<close>

text \<open>
  C1, as stated, fails: with storage down the fallback query of the Prisma file rejects,
  the outer \<open>catch\<close> calls \<open>getPopularProducts\<close>, that query rejects too, and the
  rejection is what the caller gets; no path turns it into an empty list. The cache-based
  file behaves alike when its cache is empty.
\<close>

theorem storage_outage_reaches_the_caller:
  "fst (getRecommendations \<lparr>ollama = llm_off, db = shop, storage_fails = storage_down\<rparr>
          (Some 1) None 4)
     = Inl StorageError
   \<and> fst (fst (getRecommendations_cache
                  \<lparr>c_ollama = llm_off, first_read = outage, handler_read = outage\<rparr>
                  (Some ''a1'') 4 cold))
     = Inl StorageError"
  by (simp add: prisma_defs cache_defs input_defs)

lemma getRecommendations_returns:
  assumes "\<not> (storage_fails e FallbackQuery \<and> storage_fails e PopularQuery)"
  shows "\<exists>ps. fst (getRecommendations e productId orderId limit) = Inr ps"
  using assms
  by (auto simp: getRecommendations_def fallbackProducts_query_def getPopularProducts_def
        prisma_def
      split: prod.splits option.splits)

lemma getProductsWithOrderCounts_answers:
  assumes "answers r"
  shows "\<exists>a s'. getProductsWithOrderCounts r s = (Inr a, s')"
  using assms
  by (auto simp: getProductsWithOrderCounts_def answers_def split: sum.splits option.splits)

lemma getProductsWithOrderCounts_error_keeps_state:
  "getProductsWithOrderCounts r s = (Inl x, s') \<Longrightarrow> s' = s"
  by (auto simp: getProductsWithOrderCounts_def split: sum.splits option.splits if_splits)

lemma getOllamaRecommendations_cache_no_error:
  "getOllamaRecommendations_cache l cur pool limit = (Inl x, t) \<Longrightarrow> False"
  using getOllamaRecommendations_cache_total [of l cur pool limit] by auto

lemma getRecommendations_cache_try_returns:
  assumes "getProductsWithOrderCounts (first_read e) s = (Inr a, s1)"
  shows "\<exists>ps t s2. getRecommendations_cache_try e productId limit s = ((Inr ps, t), s2)"
  using assms
  by (auto simp: getRecommendations_cache_try_def Let_def
      split: option.splits prod.splits sum.splits
      dest: getOllamaRecommendations_cache_no_error)

lemma getRecommendations_cache_returns:
  assumes "answers (first_read e) \<or> answers (handler_read e)"
  shows "\<exists>ps. fst (fst (getRecommendations_cache e productId limit s)) = Inr ps"
proof (cases "getProductsWithOrderCounts (first_read e) s")
  case (Pair r s1)
  show ?thesis
  proof (cases r)
    case (Inr a)
    with Pair getRecommendations_cache_try_returns [of e s a s1 productId limit]
    show ?thesis
      by (auto simp: getRecommendations_cache_def)
  next
    case (Inl x)
    with Pair assms getProductsWithOrderCounts_answers [of "first_read e" s]
    have handler: "answers (handler_read e)"
      by auto
    from Pair Inl have body: "getRecommendations_cache_try e productId limit s = ((Inl x, []), s1)"
      by (simp add: getRecommendations_cache_try_def)
    from getProductsWithOrderCounts_answers [OF handler, of s1]
    obtain a s2 where "getProductsWithOrderCounts (handler_read e) s1 = (Inr a, s2)"
      by blast
    with body show ?thesis
      by (simp add: getRecommendations_cache_def getPopularProducts_cache_def)
  qed
qed

text \<open>
  C1, amended. \<open>getRecommendations\<close> returns a list and raises nothing whenever one of
  its two popularity reads succeeds: in the Prisma file the fallback query of the body
  or the query of \<open>getPopularProducts\<close> in the outer \<open>catch\<close>; in the cache-based file
  the visit to storage of the body or that of the \<open>catch\<close>. Errors of the order block,
  of the product block and of the ranking functions never leave the function.
\<close>

theorem getRecommendations_returns_a_list_when_a_popularity_read_succeeds:
  "(\<not> (storage_fails e FallbackQuery \<and> storage_fails e PopularQuery) \<longrightarrow>
      (\<exists>ps. fst (getRecommendations e productId orderId limit) = Inr ps))
   \<and> (answers (first_read ce) \<or> answers (handler_read ce) \<longrightarrow>
      (\<exists>ps. fst (fst (getRecommendations_cache ce cproductId limit s)) = Inr ps))"
  using getRecommendations_returns [of e productId orderId limit]
    getRecommendations_cache_returns [of ce cproductId limit s]
  by blast

theorem getRecommendations_returns_a_list_when_a_popularity_read_succeeds_witness:
  "\<not> (storage_fails \<lparr>ollama = llm_off, db = shop, storage_fails = fallback_query_down\<rparr>
         FallbackQuery
       \<and> storage_fails \<lparr>ollama = llm_off, db = shop, storage_fails = fallback_query_down\<rparr>
           PopularQuery)
   \<and> (\<exists>ps. fst (getRecommendations
                   \<lparr>ollama = llm_off, db = shop, storage_fails = fallback_query_down\<rparr>
                   (Some 1) None 4) = Inr ps)
   \<and> answers (handler_read \<lparr>c_ollama = llm_off, first_read = outage, handler_read = catalogue\<rparr>)
   \<and> (\<exists>ps. fst (fst (getRecommendations_cache
                        \<lparr>c_ollama = llm_off, first_read = outage, handler_read = catalogue\<rparr>
                        (Some ''a1'') 4 cold)) = Inr ps)"
proof -
  have one: "\<not> (storage_fails \<lparr>ollama = llm_off, db = shop, storage_fails = fallback_query_down\<rparr>
                   FallbackQuery
                 \<and> storage_fails \<lparr>ollama = llm_off, db = shop, storage_fails = fallback_query_down\<rparr>
                     PopularQuery)"
    by (simp add: fallback_query_down_def)
  have two: "answers (handler_read \<lparr>c_ollama = llm_off, first_read = outage,
                                     handler_read = catalogue\<rparr>)"
    by (simp add: answers_def catalogue_def)
  show ?thesis
    using one two
      getRecommendations_returns_a_list_when_a_popularity_read_succeeds
        [of "\<lparr>ollama = llm_off, db = shop, storage_fails = fallback_query_down\<rparr>" "Some 1" None 4
            "\<lparr>c_ollama = llm_off, first_read = outage, handler_read = catalogue\<rparr>"
            "Some ''a1''" cold]
    by blast
qed

section \<open>The size of the candidate pool\<close>

text \<open>
  C5, as stated, fails for the product-seeded selection of the Prisma file: its category
  query takes 10 rows whatever \<open>limit\<close> is. With \<open>limit = 1\<close> and four other products
  in the seed's category, the pool handed to the ranking function (a request is sent)
  has four products, more than \<open>limit * 2\<close>.
\<close>

theorem pool_larger_than_twice_the_limit:
  "similarCategoryProducts \<lparr>ollama = llm_says ''3'', db = shop, storage_fails = storage_up\<rparr>
      1 (sku 1 catA)
     = Inr [sku 2 catA, sku 3 catA, sku 4 catA, sku 5 catA]
   \<and> productsToRank \<lparr>ollama = llm_says ''3'', db = shop, storage_fails = storage_up\<rparr>
        1 [sku 2 catA, sku 3 catA, sku 4 catA, sku 5 catA] 1
     = Inr [sku 2 catA, sku 3 catA, sku 4 catA, sku 5 catA]
   \<and> \<not> length [sku 2 catA, sku 3 catA, sku 4 catA, sku 5 catA] \<le> 1 * 2
   \<and> getRecommendations \<lparr>ollama = llm_says ''3'', db = shop, storage_fails = storage_up\<rparr>
        (Some 1) None 1
     = (Inr [sku 3 catA], [ProbeGET, GeneratePOST])"
  by (simp add: prisma_defs ranking_defs input_defs)

lemma length_similarCategoryProducts_order:
  "similarCategoryProducts_order e ord limit = Inr similar \<Longrightarrow> length similar \<le> limit * 2"
  by (auto simp: similarCategoryProducts_order_def prisma_def split: if_splits)

lemma length_similarCategoryProducts:
  "similarCategoryProducts e pid cur = Inr similar \<Longrightarrow> length similar \<le> 10"
  by (auto simp: similarCategoryProducts_def prisma_def split: if_splits)

lemma productsToRank_enough:
  "productsToRank e pid similar limit = Inr pool \<Longrightarrow> limit \<le> length similar \<Longrightarrow> pool = similar"
  by (auto simp: productsToRank_def split: if_splits)

lemma productsToRank_supplemented:
  assumes "productsToRank e pid similar limit = Inr pool" and "length similar < limit"
  shows "length pool < 3 * limit"
proof -
  from assms obtain additional where
    "pool = similar @ additional" and "length additional \<le> limit * 2"
    by (auto simp: productsToRank_def prisma_def split: if_splits sum.splits)
  with assms(2) show ?thesis
    by simp
qed

text \<open>
  C5, amended. The order-seeded pool of the Prisma file and the pool of the cache-based
  file hold at most \<open>limit * 2\<close> products. The product-seeded selection of the Prisma file
  holds at most 10 category matches; when at least \<open>limit\<close> of them exist they are the
  pool, and otherwise the popular products returned by one further query of at most
  \<open>limit * 2\<close> rows are appended, so that the pool has fewer than \<open>3 * limit\<close> products.
\<close>

theorem candidate_pool_bounds:
  "(similarCategoryProducts_order e ord limit = Inr osimilar \<longrightarrow> length osimilar \<le> limit * 2)
   \<and> length (similarProducts cps cpid ccur limit) \<le> limit * 2
   \<and> (similarCategoryProducts e pid cur = Inr similar \<longrightarrow> length similar \<le> 10)
   \<and> (productsToRank e pid similar limit = Inr pool \<longrightarrow>
        (limit \<le> length similar \<longrightarrow> pool = similar)
        \<and> (length similar < limit \<longrightarrow> length pool < 3 * limit))"
  using length_similarCategoryProducts_order [of e ord limit osimilar]
    length_similarCategoryProducts [of e pid cur similar]
    productsToRank_enough [of e pid similar limit pool]
    productsToRank_supplemented [of e pid similar limit pool]
  by (simp add: similarProducts_def)

theorem candidate_pool_bounds_witness:
  "similarCategoryProducts_order \<lparr>ollama = llm_off, db = shop, storage_fails = storage_up\<rparr>
      (bought 1 [1]) 1
     = Inr [sku 2 catA, sku 3 catA]
   \<and> length [sku 2 catA, sku 3 catA] \<le> 1 * 2
   \<and> similarCategoryProducts \<lparr>ollama = llm_off, db = corner_shop, storage_fails = storage_up\<rparr>
        1 (sku 1 catA)
     = Inr [sku 2 catA]
   \<and> length [sku 2 catA] \<le> (10::nat)
   \<and> productsToRank \<lparr>ollama = llm_off, db = corner_shop, storage_fails = storage_up\<rparr>
        1 [sku 2 catA] 2
     = Inr [sku 2 catA, sku 6 catB]
   \<and> length [sku 2 catA] < (2::nat)
   \<and> length [sku 2 catA, sku 6 catB] < 3 * (2::nat)
   \<and> productsToRank \<lparr>ollama = llm_off, db = corner_shop, storage_fails = storage_up\<rparr>
        1 [sku 2 catA] 1
     = Inr [sku 2 catA]"
proof -
  have a: "similarCategoryProducts_order \<lparr>ollama = llm_off, db = shop, storage_fails = storage_up\<rparr>
             (bought 1 [1]) 1
           = Inr [sku 2 catA, sku 3 catA]"
    by (simp add: prisma_defs input_defs)
  have b: "similarCategoryProducts \<lparr>ollama = llm_off, db = corner_shop, storage_fails = storage_up\<rparr>
             1 (sku 1 catA)
           = Inr [sku 2 catA]"
    by (simp add: prisma_defs input_defs)
  have c: "productsToRank \<lparr>ollama = llm_off, db = corner_shop, storage_fails = storage_up\<rparr>
             1 [sku 2 catA] 2
           = Inr [sku 2 catA, sku 6 catB]"
    by (simp add: prisma_defs input_defs)
  have d: "productsToRank \<lparr>ollama = llm_off, db = corner_shop, storage_fails = storage_up\<rparr>
             1 [sku 2 catA] 1
           = Inr [sku 2 catA]"
    by (simp add: prisma_defs input_defs)
  from a candidate_pool_bounds
         [of "\<lparr>ollama = llm_off, db = shop, storage_fails = storage_up\<rparr>" "bought 1 [1]" 1
             "[sku 2 catA, sku 3 catA]"]
  have "length [sku 2 catA, sku 3 catA] \<le> 1 * 2"
    by blast
  moreover from b c
    candidate_pool_bounds
      [where e = "\<lparr>ollama = llm_off, db = corner_shop, storage_fails = storage_up\<rparr>"
         and pid = 1 and cur = "sku 1 catA" and similar = "[sku 2 catA]" and limit = 2
         and pool = "[sku 2 catA, sku 6 catB]"]
  have "length [sku 2 catA] \<le> (10::nat) \<and> length [sku 2 catA, sku 6 catB] < 3 * (2::nat)"
    by simp
  ultimately show ?thesis
    using a b c d by simp
qed

section \<open>Which products are candidates\<close>

text \<open>
  C7, as stated, fails in both directions. In the Prisma file a product-seeded request
  with fewer category matches than \<open>limit\<close> adds popular products to the candidates
  whatever their categories: seeded with product 1 and \<open>limit = 2\<close>, the only category
  match is product 2, the candidates handed to the ranking function are products 2 and 6,
  product 6 has no category of the seed, and the model's answer puts it first in the
  result. In the cache-based file product \<open>a4\<close> is not the seed \<open>a1\<close> and has the seed's
  category, but its sustainability score differs from the seed's by 40, so it is no
  candidate, and the request returns \<open>a2\<close> instead of it.
\<close>

theorem category_match_is_neither_needed_nor_enough:
  "similarCategoryProducts
      \<lparr>ollama = llm_says ''6, 2'', db = corner_shop, storage_fails = storage_up\<rparr> 1 (sku 1 catA)
     = Inr [sku 2 catA]
   \<and> productsToRank
        \<lparr>ollama = llm_says ''6, 2'', db = corner_shop, storage_fails = storage_up\<rparr> 1
        [sku 2 catA] 2
     = Inr [sku 2 catA, sku 6 catB]
   \<and> \<not> shares_category (sku 6 catB) (sku 1 catA)
   \<and> getRecommendations
        \<lparr>ollama = llm_says ''6, 2'', db = corner_shop, storage_fails = storage_up\<rparr>
        (Some 1) None 2
     = (Inr [sku 6 catB, sku 2 catA], [ProbeGET, GeneratePOST])
   \<and> similarProducts
        [cached ''a3'' ''B'' 7 50, cached ''a5'' ''B'' 3 40, cached ''a4'' ''A'' 2 90,
         cached ''a1'' ''A'' 0 50, cached ''a2'' ''A'' 0 60]
        ''a1'' (cached ''a1'' ''A'' 0 50) 1
     = [cached ''a2'' ''A'' 0 60]
   \<and> toString (cp_id (cached ''a4'' ''A'' 2 90)) \<noteq> ''a1''
   \<and> set (cp_categories (cached ''a4'' ''A'' 2 90)) \<inter> set (cp_categories (cached ''a1'' ''A'' 0 50))
       \<noteq> {}
   \<and> fst (fst (getRecommendations_cache
                  \<lparr>c_ollama = llm_off, first_read = catalogue, handler_read = catalogue\<rparr>
                  (Some ''a1'') 1 cold))
     = Inr [cached ''a2'' ''A'' 0 60]"
  by (simp add: prisma_defs ranking_defs cache_defs input_defs shares_category_def)

lemma set_take_filter:
  "set (take n (filter P xs)) \<subseteq> {x \<in> set xs. P x}"
  by (auto dest: in_set_takeD)

lemma set_take_filter_all:
  assumes "length (take n (filter P xs)) < n"
  shows "set (take n (filter P xs)) = {x \<in> set xs. P x}"
proof -
  from assms have "length (filter P xs) < n"
    by (simp add: min_def split: if_splits)
  then have "take n (filter P xs) = filter P xs"
    by simp
  then show ?thesis
    by simp
qed

lemma similarCategoryProducts_filter:
  assumes "similarCategoryProducts e pid cur = Inr similar"
  shows "similar = take 10 (filter (\<lambda>p. product_id p \<noteq> pid \<and> shares_category p cur)
                              (products (db e)))"
proof -
  have "filter (\<lambda>p. product_id p \<noteq> pid
                    \<and> list_ex (\<lambda>c. category_id c \<in> set (map category_id (categories cur)))
                         (categories p))
          (products (db e))
        = filter (\<lambda>p. product_id p \<noteq> pid \<and> shares_category p cur) (products (db e))"
    by (rule filter_cong) (auto simp: list_ex_iff shares_category_def)
  moreover from assms have "similar =
      take 10
        (filter (\<lambda>p. product_id p \<noteq> pid
                     \<and> list_ex (\<lambda>c. category_id c \<in> set (map category_id (categories cur)))
                          (categories p))
           (products (db e)))"
    by (simp add: similarCategoryProducts_def prisma_def split: if_splits)
  ultimately show ?thesis
    by (simp only:)
qed

lemma set_categoryIds_of:
  "(i \<in> set (categoryIds_of d ord))
   = (\<exists>item \<in> set (items ord). \<exists>q. item_product d item = Some q
                                     \<and> i \<in> category_id ` set (categories q))"
proof
  assume "i \<in> set (categoryIds_of d ord)"
  then obtain item where item: "item \<in> set (items ord)"
    and i: "i \<in> set (case item_product d item of None \<Rightarrow> [] | Some p \<Rightarrow> map category_id (categories p))"
    by (auto simp: categoryIds_of_def uniq_def)
  from i obtain q where "item_product d item = Some q" "i \<in> category_id ` set (categories q)"
    by (cases "item_product d item") auto
  with item show "\<exists>item \<in> set (items ord). \<exists>q. item_product d item = Some q
                                     \<and> i \<in> category_id ` set (categories q)"
    by blast
next
  assume "\<exists>item \<in> set (items ord). \<exists>q. item_product d item = Some q
                                     \<and> i \<in> category_id ` set (categories q)"
  then obtain item q where "item \<in> set (items ord)" "item_product d item = Some q"
    "i \<in> category_id ` set (categories q)"
    by blast
  then show "i \<in> set (categoryIds_of d ord)"
    by (force simp: categoryIds_of_def uniq_def)
qed

lemma shares_category_with_order_iff:
  "list_ex (\<lambda>c. category_id c \<in> set (categoryIds_of d ord)) (categories p)
   = shares_category_with_order d ord p"
proof
  assume "list_ex (\<lambda>c. category_id c \<in> set (categoryIds_of d ord)) (categories p)"
  then obtain c where c: "c \<in> set (categories p)" and "category_id c \<in> set (categoryIds_of d ord)"
    by (auto simp: list_ex_iff)
  then obtain item q where item: "item \<in> set (items ord)" and q: "item_product d item = Some q"
    and "category_id c \<in> category_id ` set (categories q)"
    unfolding set_categoryIds_of by blast
  with c have "shares_category p q"
    unfolding shares_category_def by blast
  with item q show "shares_category_with_order d ord p"
    unfolding shares_category_with_order_def list_ex_iff by force
next
  assume "shares_category_with_order d ord p"
  then obtain item where item: "item \<in> set (items ord)"
    and s: "case item_product d item of None \<Rightarrow> False | Some q \<Rightarrow> shares_category p q"
    unfolding shares_category_with_order_def list_ex_iff by blast
  from s obtain q where q: "item_product d item = Some q" and "shares_category p q"
    by (cases "item_product d item") auto
  then obtain c where "c \<in> set (categories p)" "category_id c \<in> category_id ` set (categories q)"
    unfolding shares_category_def by blast
  with item q show "list_ex (\<lambda>c. category_id c \<in> set (categoryIds_of d ord)) (categories p)"
    unfolding list_ex_iff set_categoryIds_of by blast
qed

lemma similarCategoryProducts_order_filter:
  assumes "similarCategoryProducts_order e ord limit = Inr similar"
  shows "similar = take (limit * 2)
                     (filter (\<lambda>p. \<not> in_order ord p \<and> shares_category_with_order (db e) ord p)
                        (products (db e)))"
  using assms
  by (simp add: similarCategoryProducts_order_def prisma_def in_order_def
      shares_category_with_order_iff split: if_splits)

lemma productsToRank_supplement:
  assumes "productsToRank e pid similar limit = Inr pool" and "length similar < limit"
  shows "pool = similar
                @ take (limit * 2)
                    (orderBy_count_desc (db e)
                       (filter (\<lambda>p. product_id p \<noteq> pid
                                    \<and> product_id p \<notin> product_id ` set similar)
                          (products (db e))))"
  using assms by (simp add: productsToRank_def prisma_def split: if_splits)

lemma set_take_orderBy_count_desc:
  "set (take n (orderBy_count_desc d (filter P xs))) \<subseteq> {x \<in> set xs. P x}"
  by (auto simp: orderBy_count_desc_def dest: in_set_takeD)

lemma set_take_orderBy_count_desc_all:
  assumes "length (take n (orderBy_count_desc d (filter P xs))) < n"
  shows "set (take n (orderBy_count_desc d (filter P xs))) = {x \<in> set xs. P x}"
proof -
  from assms have "length (orderBy_count_desc d (filter P xs)) < n"
    by (simp add: min_def split: if_splits)
  then have "take n (orderBy_count_desc d (filter P xs)) = orderBy_count_desc d (filter P xs)"
    by simp
  then show ?thesis
    by (simp add: orderBy_count_desc_def)
qed

lemma category_matches:
  assumes "similarCategoryProducts e pid cur = Inr similar"
  shows "set similar
         \<subseteq> {p \<in> set (products (db e)). product_id p \<noteq> pid \<and> shares_category p cur}"
    and "length similar < 10 \<Longrightarrow>
         set similar
         = {p \<in> set (products (db e)). product_id p \<noteq> pid \<and> shares_category p cur}"
  unfolding similarCategoryProducts_filter [OF assms]
  by (rule set_take_filter, rule set_take_filter_all)

lemma category_matches_order:
  assumes "similarCategoryProducts_order e ord limit = Inr similar"
  shows "set similar
         \<subseteq> {p \<in> set (products (db e)).
              \<not> in_order ord p \<and> shares_category_with_order (db e) ord p}"
    and "length similar < limit * 2 \<Longrightarrow>
         set similar
         = {p \<in> set (products (db e)).
              \<not> in_order ord p \<and> shares_category_with_order (db e) ord p}"
  unfolding similarCategoryProducts_order_filter [OF assms]
  by (rule set_take_filter, rule set_take_filter_all)

lemma pool_of_enough_matches:
  assumes "productsToRank e pid similar limit = Inr pool" and "limit \<le> length similar"
  shows "pool = similar"
  using assms by (simp add: productsToRank_def)

lemma pool_of_few_matches:
  assumes "productsToRank e pid similar limit = Inr pool" and "length similar < limit"
  shows "take (length similar) pool = similar"
    and "set pool
         \<subseteq> set similar
           \<union> {p \<in> set (products (db e)).
                product_id p \<noteq> pid \<and> product_id p \<notin> product_id ` set similar}"
    and "length pool < length similar + limit * 2 \<Longrightarrow>
         set pool
         = set similar
           \<union> {p \<in> set (products (db e)).
                product_id p \<noteq> pid \<and> product_id p \<notin> product_id ` set similar}"
proof -
  let ?P = "\<lambda>p. product_id p \<noteq> pid \<and> product_id p \<notin> product_id ` set similar"
  let ?additional = "take (limit * 2) (orderBy_count_desc (db e) (filter ?P (products (db e))))"
  have pool: "pool = similar @ ?additional"
    using assms by (rule productsToRank_supplement)
  show "take (length similar) pool = similar"
    by (simp add: pool)
  have "set ?additional \<subseteq> {p \<in> set (products (db e)). ?P p}"
    by (rule set_take_orderBy_count_desc)
  then show "set pool \<subseteq> set similar \<union> {p \<in> set (products (db e)). ?P p}"
    unfolding pool by auto
  assume "length pool < length similar + limit * 2"
  then have "length ?additional < limit * 2"
    unfolding pool by simp
  then have "set ?additional = {p \<in> set (products (db e)). ?P p}"
    by (rule set_take_orderBy_count_desc_all)
  then show "set pool = set similar \<union> {p \<in> set (products (db e)). ?P p}"
    unfolding pool by simp
qed

lemma similar_cache:
  "set (similarProducts ps pid cur limit)
   \<subseteq> {p \<in> set ps. toString (cp_id p) \<noteq> pid
                   \<and> set (cp_categories p) \<inter> set (cp_categories cur) \<noteq> {}
                   \<and> scores_close (sustainabilityScore p) (sustainabilityScore cur)}"
  "length (similarProducts ps pid cur limit) < limit * 2 \<Longrightarrow>
   set (similarProducts ps pid cur limit)
   = {p \<in> set ps. toString (cp_id p) \<noteq> pid
                   \<and> set (cp_categories p) \<inter> set (cp_categories cur) \<noteq> {}
                   \<and> scores_close (sustainabilityScore p) (sustainabilityScore cur)}"
proof -
  have eq: "similarProducts ps pid cur limit
      = take (limit * 2)
          (filter (\<lambda>p. toString (cp_id p) \<noteq> pid
                       \<and> set (cp_categories p) \<inter> set (cp_categories cur) \<noteq> {}
                       \<and> scores_close (sustainabilityScore p) (sustainabilityScore cur))
             ps)"
  proof -
    have "filter (\<lambda>p. toString (cp_id p) \<noteq> pid
                      \<and> list_ex (\<lambda>c. c \<in> set (cp_categories cur)) (cp_categories p)
                      \<and> scores_close (sustainabilityScore p) (sustainabilityScore cur))
            ps
          = filter (\<lambda>p. toString (cp_id p) \<noteq> pid
                        \<and> set (cp_categories p) \<inter> set (cp_categories cur) \<noteq> {}
                        \<and> scores_close (sustainabilityScore p) (sustainabilityScore cur))
              ps"
      by (rule filter_cong) (auto simp: list_ex_iff)
    then show ?thesis
      unfolding similarProducts_def by (simp only:)
  qed
  show "set (similarProducts ps pid cur limit)
        \<subseteq> {p \<in> set ps. toString (cp_id p) \<noteq> pid
                        \<and> set (cp_categories p) \<inter> set (cp_categories cur) \<noteq> {}
                        \<and> scores_close (sustainabilityScore p) (sustainabilityScore cur)}"
    unfolding eq by (rule set_take_filter)
  show "length (similarProducts ps pid cur limit) < limit * 2 \<Longrightarrow>
        set (similarProducts ps pid cur limit)
        = {p \<in> set ps. toString (cp_id p) \<noteq> pid
                        \<and> set (cp_categories p) \<inter> set (cp_categories cur) \<noteq> {}
                        \<and> scores_close (sustainabilityScore p) (sustainabilityScore cur)}"
    unfolding eq by (rule set_take_filter_all)
qed

text \<open>
  C7, amended. In the Prisma file the category matches of a product-seeded request are
  products other than the seed that have a category in common with it, and all of them
  when fewer than the cap of 10 are returned. When there are at least \<open>limit\<close> matches,
  they are the candidates handed to the ranking function; when there are fewer, the
  candidates are the matches followed by popular products, for which only two things
  count: not being the seed and not being among the matches (all such products when the
  cap of \<open>limit * 2\<close> is not reached). The candidates of an order-seeded request are
  products not in the order that have a category in common with a product of the order,
  and all of them below the cap of \<open>limit * 2\<close>. In the cache-based file a candidate is a
  product other than the seed that has a category in common with it and a
  sustainability score within 20 of the seed's, and below the cap of \<open>limit * 2\<close> all such
  products are candidates.
\<close>

theorem candidates_handed_to_the_ranker:
  "(similarCategoryProducts e pid cur = Inr similar \<longrightarrow>
      set similar
      \<subseteq> {p \<in> set (products (db e)). product_id p \<noteq> pid \<and> shares_category p cur}
      \<and> (length similar < 10 \<longrightarrow>
           set similar
           = {p \<in> set (products (db e)). product_id p \<noteq> pid \<and> shares_category p cur}))
   \<and> (productsToRank e pid similar limit = Inr pool \<longrightarrow>
        (limit \<le> length similar \<longrightarrow> pool = similar)
        \<and> (length similar < limit \<longrightarrow>
             take (length similar) pool = similar
             \<and> set pool
               \<subseteq> set similar
                 \<union> {p \<in> set (products (db e)).
                      product_id p \<noteq> pid \<and> product_id p \<notin> product_id ` set similar}
             \<and> (length pool < length similar + limit * 2 \<longrightarrow>
                  set pool
                  = set similar
                    \<union> {p \<in> set (products (db e)).
                         product_id p \<noteq> pid \<and> product_id p \<notin> product_id ` set similar})))
   \<and> (similarCategoryProducts_order e ord limit = Inr osimilar \<longrightarrow>
        set osimilar
        \<subseteq> {p \<in> set (products (db e)).
             \<not> in_order ord p \<and> shares_category_with_order (db e) ord p}
        \<and> (length osimilar < limit * 2 \<longrightarrow>
             set osimilar
             = {p \<in> set (products (db e)).
                  \<not> in_order ord p \<and> shares_category_with_order (db e) ord p}))
   \<and> set (similarProducts cps cpid ccur limit)
     \<subseteq> {p \<in> set cps. toString (cp_id p) \<noteq> cpid
                      \<and> set (cp_categories p) \<inter> set (cp_categories ccur) \<noteq> {}
                      \<and> scores_close (sustainabilityScore p) (sustainabilityScore ccur)}
   \<and> (length (similarProducts cps cpid ccur limit) < limit * 2 \<longrightarrow>
        set (similarProducts cps cpid ccur limit)
        = {p \<in> set cps. toString (cp_id p) \<noteq> cpid
                        \<and> set (cp_categories p) \<inter> set (cp_categories ccur) \<noteq> {}
                        \<and> scores_close (sustainabilityScore p) (sustainabilityScore ccur)})"
proof -
  have product_matches:
    "similarCategoryProducts e pid cur = Inr similar \<longrightarrow>
       set similar
       \<subseteq> {p \<in> set (products (db e)). product_id p \<noteq> pid \<and> shares_category p cur}
       \<and> (length similar < 10 \<longrightarrow>
            set similar
            = {p \<in> set (products (db e)). product_id p \<noteq> pid \<and> shares_category p cur})"
  proof (intro impI conjI)
    assume h: "similarCategoryProducts e pid cur = Inr similar"
    show "set similar
          \<subseteq> {p \<in> set (products (db e)). product_id p \<noteq> pid \<and> shares_category p cur}"
      by (rule category_matches(1) [OF h])
    assume "length similar < 10"
    then show "set similar
               = {p \<in> set (products (db e)). product_id p \<noteq> pid \<and> shares_category p cur}"
      by (rule category_matches(2) [OF h])
  qed
  have product_pool:
    "productsToRank e pid similar limit = Inr pool \<longrightarrow>
       (limit \<le> length similar \<longrightarrow> pool = similar)
       \<and> (length similar < limit \<longrightarrow>
            take (length similar) pool = similar
            \<and> set pool
              \<subseteq> set similar
                \<union> {p \<in> set (products (db e)).
                     product_id p \<noteq> pid \<and> product_id p \<notin> product_id ` set similar}
            \<and> (length pool < length similar + limit * 2 \<longrightarrow>
                 set pool
                 = set similar
                   \<union> {p \<in> set (products (db e)).
                        product_id p \<noteq> pid \<and> product_id p \<notin> product_id ` set similar}))"
  proof (intro impI conjI)
    assume h: "productsToRank e pid similar limit = Inr pool"
    show "pool = similar" if "limit \<le> length similar"
      using h that by (rule pool_of_enough_matches)
    assume few: "length similar < limit"
    show "take (length similar) pool = similar"
      by (rule pool_of_few_matches(1) [OF h few])
    show "set pool
          \<subseteq> set similar
            \<union> {p \<in> set (products (db e)).
                 product_id p \<noteq> pid \<and> product_id p \<notin> product_id ` set similar}"
      by (rule pool_of_few_matches(2) [OF h few])
    assume "length pool < length similar + limit * 2"
    then show "set pool
               = set similar
                 \<union> {p \<in> set (products (db e)).
                      product_id p \<noteq> pid \<and> product_id p \<notin> product_id ` set similar}"
      by (rule pool_of_few_matches(3) [OF h few])
  qed
  have order_matches:
    "similarCategoryProducts_order e ord limit = Inr osimilar \<longrightarrow>
       set osimilar
       \<subseteq> {p \<in> set (products (db e)).
            \<not> in_order ord p \<and> shares_category_with_order (db e) ord p}
       \<and> (length osimilar < limit * 2 \<longrightarrow>
            set osimilar
            = {p \<in> set (products (db e)).
                 \<not> in_order ord p \<and> shares_category_with_order (db e) ord p})"
  proof (intro impI conjI)
    assume h: "similarCategoryProducts_order e ord limit = Inr osimilar"
    show "set osimilar
          \<subseteq> {p \<in> set (products (db e)).
               \<not> in_order ord p \<and> shares_category_with_order (db e) ord p}"
      by (rule category_matches_order(1) [OF h])
    assume "length osimilar < limit * 2"
    then show "set osimilar
               = {p \<in> set (products (db e)).
                    \<not> in_order ord p \<and> shares_category_with_order (db e) ord p}"
      by (rule category_matches_order(2) [OF h])
  qed
  have cache_all:
    "length (similarProducts cps cpid ccur limit) < limit * 2 \<longrightarrow>
       set (similarProducts cps cpid ccur limit)
       = {p \<in> set cps. toString (cp_id p) \<noteq> cpid
                       \<and> set (cp_categories p) \<inter> set (cp_categories ccur) \<noteq> {}
                       \<and> scores_close (sustainabilityScore p) (sustainabilityScore ccur)}"
    by (rule impI) (rule similar_cache(2))
  from product_matches product_pool order_matches similar_cache(1) [of cps cpid ccur limit]
    cache_all
  show ?thesis
    by (intro conjI)
qed

theorem candidates_handed_to_the_ranker_witness:
  "similarCategoryProducts
      \<lparr>ollama = llm_off, db = corner_shop, storage_fails = storage_up\<rparr> 1 (sku 1 catA)
     = Inr [sku 2 catA]
   \<and> set [sku 2 catA]
     = {p \<in> set (products (db \<lparr>ollama = llm_off, db = corner_shop, storage_fails = storage_up\<rparr>)).
          product_id p \<noteq> 1 \<and> shares_category p (sku 1 catA)}
   \<and> productsToRank
        \<lparr>ollama = llm_off, db = corner_shop, storage_fails = storage_up\<rparr> 1 [sku 2 catA] 2
     = Inr [sku 2 catA, sku 6 catB]
   \<and> set [sku 2 catA, sku 6 catB]
     = set [sku 2 catA]
       \<union> {p \<in> set (products (db \<lparr>ollama = llm_off, db = corner_shop, storage_fails = storage_up\<rparr>)).
            product_id p \<noteq> 1 \<and> product_id p \<notin> product_id ` set [sku 2 catA]}
   \<and> productsToRank
        \<lparr>ollama = llm_off, db = shop, storage_fails = storage_up\<rparr> 1
        [sku 2 catA, sku 3 catA, sku 4 catA, sku 5 catA] 3
     = Inr [sku 2 catA, sku 3 catA, sku 4 catA, sku 5 catA]
   \<and> similarCategoryProducts_order
        \<lparr>ollama = llm_off, db = corner_shop, storage_fails = storage_up\<rparr> (bought 1 [1]) 2
     = Inr [sku 2 catA]
   \<and> set [sku 2 catA]
     = {p \<in> set (products (db \<lparr>ollama = llm_off, db = corner_shop, storage_fails = storage_up\<rparr>)).
          \<not> in_order (bought 1 [1]) p
          \<and> shares_category_with_order
              (db \<lparr>ollama = llm_off, db = corner_shop, storage_fails = storage_up\<rparr>)
              (bought 1 [1]) p}
   \<and> similarProducts
        [cached ''a3'' ''B'' 7 50, cached ''a5'' ''B'' 3 40, cached ''a4'' ''A'' 2 90,
         cached ''a1'' ''A'' 0 50, cached ''a2'' ''A'' 0 60]
        ''a1'' (cached ''a1'' ''A'' 0 50) 1
     = [cached ''a2'' ''A'' 0 60]
   \<and> set [cached ''a2'' ''A'' 0 60]
     = {p \<in> set [cached ''a3'' ''B'' 7 50, cached ''a5'' ''B'' 3 40, cached ''a4'' ''A'' 2 90,
                  cached ''a1'' ''A'' 0 50, cached ''a2'' ''A'' 0 60].
          toString (cp_id p) \<noteq> ''a1''
          \<and> set (cp_categories p) \<inter> set (cp_categories (cached ''a1'' ''A'' 0 50)) \<noteq> {}
          \<and> scores_close (sustainabilityScore p) (sustainabilityScore (cached ''a1'' ''A'' 0 50))}"
proof -
  let ?e = "\<lparr>ollama = llm_off, db = corner_shop, storage_fails = storage_up\<rparr>"
  let ?f = "\<lparr>ollama = llm_off, db = shop, storage_fails = storage_up\<rparr>"
  let ?many = "[sku 2 catA, sku 3 catA, sku 4 catA, sku 5 catA]"
  let ?cps = "[cached ''a3'' ''B'' 7 50, cached ''a5'' ''B'' 3 40, cached ''a4'' ''A'' 2 90,
               cached ''a1'' ''A'' 0 50, cached ''a2'' ''A'' 0 60]"
  have similar: "similarCategoryProducts ?e 1 (sku 1 catA) = Inr [sku 2 catA]"
    by (simp add: prisma_defs input_defs)
  have below_cap: "length [sku 2 catA] < 10"
    by simp
  note matches = candidates_handed_to_the_ranker
    [THEN conjunct1, rule_format, OF similar, THEN conjunct2, rule_format, OF below_cap]
  have pool: "productsToRank ?e 1 [sku 2 catA] 2 = Inr [sku 2 catA, sku 6 catB]"
    by (simp add: prisma_defs input_defs)
  have few: "length [sku 2 catA] < 2"
    by simp
  have pool_below_cap: "length [sku 2 catA, sku 6 catB] < length [sku 2 catA] + 2 * 2"
    by simp
  note supplemented = candidates_handed_to_the_ranker
    [THEN conjunct2, THEN conjunct1, rule_format, OF pool, THEN conjunct2, rule_format, OF few,
     THEN conjunct2, THEN conjunct2, rule_format, OF pool_below_cap]
  have enough: "3 \<le> length ?many"
    by simp
  have pool_f: "productsToRank ?f 1 ?many 3 = Inr ?many"
    by (simp add: prisma_defs input_defs)
  note unsupplemented = candidates_handed_to_the_ranker
    [THEN conjunct2, THEN conjunct1, rule_format, OF pool_f, THEN conjunct1, rule_format,
     OF enough]
  have osimilar: "similarCategoryProducts_order ?e (bought 1 [1]) 2 = Inr [sku 2 catA]"
    by (simp add: prisma_defs input_defs)
  have order_below_cap: "length [sku 2 catA] < 2 * 2"
    by simp
  note order_matches = candidates_handed_to_the_ranker
    [THEN conjunct2, THEN conjunct2, THEN conjunct1, rule_format, OF osimilar,
     THEN conjunct2, rule_format, OF order_below_cap]
  have csimilar: "similarProducts ?cps ''a1'' (cached ''a1'' ''A'' 0 50) 1
                  = [cached ''a2'' ''A'' 0 60]"
    by (simp add: cache_defs input_defs)
  then have cache_below_cap:
    "length (similarProducts ?cps ''a1'' (cached ''a1'' ''A'' 0 50) 1) < 1 * 2"
    by simp
  note cache_matches = candidates_handed_to_the_ranker
    [THEN conjunct2, THEN conjunct2, THEN conjunct2, THEN conjunct2, rule_format,
     OF cache_below_cap]
  from cache_matches have cache_matches':
    "set [cached ''a2'' ''A'' 0 60]
     = {p \<in> set ?cps.
          toString (cp_id p) \<noteq> ''a1''
          \<and> set (cp_categories p) \<inter> set (cp_categories (cached ''a1'' ''A'' 0 50)) \<noteq> {}
          \<and> scores_close (sustainabilityScore p) (sustainabilityScore (cached ''a1'' ''A'' 0 50))}"
    unfolding csimilar .
  from similar matches pool supplemented pool_f osimilar order_matches csimilar cache_matches'
  show ?thesis
    by (intro conjI)
qed
section \<open>The cached snapshot\<close>

text \<open>
  C10, as stated, fails: a call that finds the cache empty or stale fills it, which is
  what the cache is for. \<open>getPopularProducts\<close> on a module just loaded leaves five
  products in the cache; a call made after the five minutes have passed replaces them by
  the two products storage holds then, and so does \<open>getRecommendations\<close>.
\<close>

theorem stale_cache_is_replaced:
  "cached_snapshot cold = None
   \<and> cached_snapshot (snd (getPopularProducts_cache catalogue 4 cold))
     = Some [cached ''a3'' ''B'' 7 50, cached ''a5'' ''B'' 3 40, cached ''a4'' ''A'' 2 90,
             cached ''a1'' ''A'' 0 50, cached ''a2'' ''A'' 0 60]
   \<and> cached_snapshot
        (snd (getPopularProducts_cache restocked 4
                (snd (getPopularProducts_cache catalogue 4 cold))))
     = Some [cached ''a9'' ''A'' 4 55, cached ''a1'' ''A'' 0 50]
   \<and> cached_snapshot
        (snd (getRecommendations_cache
                \<lparr>c_ollama = llm_off, first_read = restocked, handler_read = restocked\<rparr>
                None 4 (snd (getPopularProducts_cache catalogue 4 cold))))
     = Some [cached ''a9'' ''A'' 4 55, cached ''a1'' ''A'' 0 50]"
  by (simp add: cache_defs input_defs)

lemma getProductsWithOrderCounts_fresh:
  assumes "productsCache_data s = Some a" and "now r - productsCache_lastUpdate s < 300000"
  shows "getProductsWithOrderCounts r s = (Inr a, s)"
  using assms by (simp add: getProductsWithOrderCounts_def)

lemma getProductsWithOrderCounts_data:
  "getProductsWithOrderCounts r s = (Inr a, s1) \<Longrightarrow> productsCache_data s1 = Some a"
  by (auto simp: getProductsWithOrderCounts_def split: sum.splits option.splits if_splits)

lemma getPopularProducts_cache_state:
  assumes "getProductsWithOrderCounts r s = (Inr a, s1)"
  shows "snd (getPopularProducts_cache r limit s) = sort_in_place a s1"
  using assms by (simp add: getPopularProducts_cache_def)

lemma getPopularProducts_cache_error_state:
  assumes "getProductsWithOrderCounts r s = (Inl x, s1)"
  shows "snd (getPopularProducts_cache r limit s) = s"
  using assms getProductsWithOrderCounts_error_keeps_state [OF assms]
  by (simp add: getPopularProducts_cache_def)

lemma getRecommendations_cache_state:
  assumes "getProductsWithOrderCounts (first_read e) s = (Inr a, s1)"
  shows "snd (getRecommendations_cache e productId limit s) = sort_in_place a s1"
  using assms
  by (auto simp: getRecommendations_cache_def getRecommendations_cache_try_def Let_def
      split: option.splits prod.splits sum.splits
      dest: getOllamaRecommendations_cache_no_error)

lemma getRecommendations_cache_error_state:
  assumes "getProductsWithOrderCounts (first_read e) s = (Inl x, s1)"
  shows "snd (getRecommendations_cache e productId limit s)
         = snd (getPopularProducts_cache (handler_read e) limit s)"
  using assms getProductsWithOrderCounts_error_keeps_state [OF assms]
  by (simp add: getRecommendations_cache_def getRecommendations_cache_try_def
      split: prod.splits)

lemma cache_sorted_sort_in_place:
  assumes "productsCache_data s = Some a"
  shows "cache_sorted (sort_in_place a s)"
  using assms by (simp add: cache_sorted_def sort_in_place_def)

lemma sort_in_place_sorted:
  assumes "cache_sorted s" and "productsCache_data s = Some a"
  shows "sort_in_place a s = s"
proof -
  from assms have "sort_key (\<lambda>p. - orderCount p) (arrays s a) = arrays s a"
    by (simp add: cache_sorted_def sort_key_id_if_sorted)
  then show ?thesis
    by (simp add: sort_in_place_def)
qed

lemma cache_sorted_getPopularProducts_cache:
  assumes "cache_sorted s"
  shows "cache_sorted (snd (getPopularProducts_cache r limit s))"
proof (cases "getProductsWithOrderCounts r s")
  case (Pair res s1)
  show ?thesis
  proof (cases res)
    case (Inl x)
    with Pair assms show ?thesis
      by (simp add: getPopularProducts_cache_error_state)
  next
    case (Inr a)
    with Pair have "productsCache_data s1 = Some a"
      by (simp add: getProductsWithOrderCounts_data)
    with Pair Inr show ?thesis
      by (simp add: getPopularProducts_cache_state cache_sorted_sort_in_place)
  qed
qed

lemma cache_sorted_getRecommendations_cache:
  assumes "cache_sorted s"
  shows "cache_sorted (snd (getRecommendations_cache e productId limit s))"
proof (cases "getProductsWithOrderCounts (first_read e) s")
  case (Pair res s1)
  show ?thesis
  proof (cases res)
    case (Inl x)
    with Pair assms show ?thesis
      by (simp add: getRecommendations_cache_error_state cache_sorted_getPopularProducts_cache)
  next
    case (Inr a)
    with Pair have "productsCache_data s1 = Some a"
      by (simp add: getProductsWithOrderCounts_data)
    with Pair Inr show ?thesis
      by (simp add: getRecommendations_cache_state cache_sorted_sort_in_place)
  qed
qed

text \<open>
  Every fill of the cache is sorted by the call that made it, before that call returns:
  no call ever finds an unsorted array in the cache.
\<close>

lemma reachable_cache_sorted:
  "reachable s \<Longrightarrow> cache_sorted s"
proof (induction rule: reachable.induct)
  case start
  show ?case
    by (simp add: cache_sorted_def cold_def)
next
  case (popular s r limit)
  then show ?case
    by (simp add: cache_sorted_getPopularProducts_cache)
next
  case (recommend s e productId limit)
  then show ?case
    by (simp add: cache_sorted_getRecommendations_cache)
qed

text \<open>
  C10, amended. While the cached snapshot is fresh (present and younger than five
  minutes), \<open>getPopularProducts\<close> and \<open>getRecommendations\<close> leave the cache, and all the
  state with it, exactly as it was: the same array with the same products in the same
  order, and the same \<open>lastUpdate\<close>. This holds in every state the module can reach from
  its initial empty cache by calls of these two functions.
\<close>

theorem fresh_cache_is_left_unchanged:
  assumes "reachable s"
    and "productsCache_data s = Some a"
    and "now r - productsCache_lastUpdate s < 300000"
    and "first_read e = r"
  shows "snd (getPopularProducts_cache r limit s) = s
       \<and> snd (getRecommendations_cache e productId limit s) = s
       \<and> cached_snapshot (snd (getPopularProducts_cache r limit s)) = cached_snapshot s
       \<and> cached_snapshot (snd (getRecommendations_cache e productId limit s)) = cached_snapshot s"
proof -
  from assms(1) have sorted: "cache_sorted s"
    by (rule reachable_cache_sorted)
  from assms(2,3) have fresh: "getProductsWithOrderCounts r s = (Inr a, s)"
    by (rule getProductsWithOrderCounts_fresh)
  from sorted assms(2) have same: "sort_in_place a s = s"
    by (rule sort_in_place_sorted)
  from fresh have "snd (getPopularProducts_cache r limit s) = sort_in_place a s"
    by (rule getPopularProducts_cache_state)
  moreover from fresh assms(4)
  have "snd (getRecommendations_cache e productId limit s) = sort_in_place a s"
    by (simp add: getRecommendations_cache_state)
  ultimately show ?thesis
    using same by simp
qed

theorem fresh_cache_is_left_unchanged_witness:
  "reachable (snd (getPopularProducts_cache catalogue 4 cold))
   \<and> productsCache_data (snd (getPopularProducts_cache catalogue 4 cold)) = Some 0
   \<and> now catalogue - productsCache_lastUpdate (snd (getPopularProducts_cache catalogue 4 cold))
       < 300000
   \<and> cached_snapshot (snd (getPopularProducts_cache catalogue 4 cold))
     = Some [cached ''a3'' ''B'' 7 50, cached ''a5'' ''B'' 3 40, cached ''a4'' ''A'' 2 90,
             cached ''a1'' ''A'' 0 50, cached ''a2'' ''A'' 0 60]
   \<and> snd (getPopularProducts_cache catalogue 2
            (snd (getPopularProducts_cache catalogue 4 cold)))
     = snd (getPopularProducts_cache catalogue 4 cold)
   \<and> snd (getRecommendations_cache
            \<lparr>c_ollama = llm_says ''7, 8'', first_read = catalogue, handler_read = outage\<rparr>
            (Some ''a1'') 2 (snd (getPopularProducts_cache catalogue 4 cold)))
     = snd (getPopularProducts_cache catalogue 4 cold)"
proof -
  let ?s = "snd (getPopularProducts_cache catalogue 4 cold)"
  let ?e = "\<lparr>c_ollama = llm_says ''7, 8'', first_read = catalogue, handler_read = outage\<rparr>"
  have a: "reachable ?s"
    by (intro reachable.intros)
  have b: "productsCache_data ?s = Some 0"
    by (simp add: cache_defs input_defs)
  have c: "now catalogue - productsCache_lastUpdate ?s < 300000"
    by (simp add: cache_defs input_defs)
  have d: "first_read ?e = catalogue"
    by simp
  have snapshot: "cached_snapshot ?s
      = Some [cached ''a3'' ''B'' 7 50, cached ''a5'' ''B'' 3 40, cached ''a4'' ''A'' 2 90,
              cached ''a1'' ''A'' 0 50, cached ''a2'' ''A'' 0 60]"
    by (simp add: cache_defs input_defs)
  from fresh_cache_is_left_unchanged [OF a b c d, where limit = 2 and productId = "Some ''a1''"]
  show ?thesis
    using a b c snapshot by blast
qed
section \<open>The acceptance threshold of a ranking\<close>

text \<open>
  C6, as stated, fails for the ranking function of the cache-based file, which has no
  threshold: it returns the valid ids it found, cut to \<open>limit\<close>. Its candidates carry
  ObjectIds, so no parsed number is a valid id, and for two candidates, \<open>limit = 2\<close> and
  the answer \<open>7, 8\<close> it returns the empty list, not \<open>null\<close>.
\<close>

theorem cache_ranker_returns_a_short_list:
  "getOllamaRecommendations_cache (llm_says ''7, 8'') (cached ''a1'' ''A'' 0 50)
      [cached ''a2'' ''A'' 0 60, cached ''a4'' ''A'' 2 90] 2
     = (Inr (Some []), [GeneratePOST])
   \<and> \<not> min 2 2 \<le> length ([] :: int list)"
  by (simp add: ranking_defs input_defs)

lemma valid_ids_are_candidates:
  "set (filter (\<lambda>i. list_ex (\<lambda>p. product_id p = i) pool) ns) \<subseteq> product_id ` set pool"
proof
  fix i
  assume "i \<in> set (filter (\<lambda>i. list_ex (\<lambda>p. product_id p = i) pool) ns)"
  then obtain p where "p \<in> set pool" and "product_id p = i"
    by (auto simp: list_ex_iff)
  then show "i \<in> product_id ` set pool"
    by force
qed

lemma getOllamaRecommendations_try_accepts:
  assumes "getOllamaRecommendations_try l pool limit = Inr (Some ids)"
  shows "\<exists>ns. ids = filter (\<lambda>i. list_ex (\<lambda>p. product_id p = i) pool) ns
              \<and> min 2 limit \<le> length ids"
proof (cases "generate l")
  case (Responded ok body)
  show ?thesis
  proof (cases body)
    case NotJson
    with Responded assms show ?thesis
      by (simp add: getOllamaRecommendations_try_def split: if_splits)
  next
    case (JsonObject field)
    show ?thesis
    proof (cases field)
      case None
      with Responded JsonObject assms show ?thesis
        by (simp add: getOllamaRecommendations_try_def split: if_splits)
    next
      case (Some response)
      define numberMatches where
        "numberMatches = (case match_id_section response of
                            Some idSection \<Rightarrow> match_digits [] idSection
                          | None \<Rightarrow> match_digits [] response)"
      from Responded JsonObject Some assms
      have "ids = filter (\<lambda>i. list_ex (\<lambda>p. product_id p = i) pool) (map parseInt numberMatches)
            \<and> \<not> length ids < min 2 limit"
        unfolding getOllamaRecommendations_try_def numberMatches_def Let_def
        by (simp split: if_splits del: length_filter_map)
      then show ?thesis
        by (metis not_less)
    qed
  qed
qed (use assms in \<open>simp_all add: getOllamaRecommendations_try_def\<close>)

lemma getOllamaRecommendations_threshold:
  assumes "getOllamaRecommendations l cur pool limit = (Inr (Some ids), t)"
  shows "min 2 limit \<le> length ids \<and> set ids \<subseteq> product_id ` set pool"
proof -
  from assms have "getOllamaRecommendations_try l pool limit = Inr (Some ids)"
    by (auto simp: getOllamaRecommendations_def split: if_splits sum.splits)
  from getOllamaRecommendations_try_accepts [OF this] obtain ns where
    ids: "ids = filter (\<lambda>i. list_ex (\<lambda>p. product_id p = i) pool) ns"
    and len: "min 2 limit \<le> length ids"
    by blast
  have "set ids \<subseteq> product_id ` set pool"
    unfolding ids by (rule valid_ids_are_candidates)
  with len show ?thesis
    by blast
qed

lemma getOllamaRecommendationsForOrder_try_accepts:
  assumes "getOllamaRecommendationsForOrder_try l pool limit = Inr (Some ids)"
  shows "\<exists>ns. ids = filter (\<lambda>i. list_ex (\<lambda>p. product_id p = i) pool) ns
              \<and> min 2 limit \<le> length ids"
proof (cases "generate l")
  case (Responded ok body)
  show ?thesis
  proof (cases body)
    case NotJson
    with Responded assms show ?thesis
      by (simp add: getOllamaRecommendationsForOrder_try_def split: if_splits)
  next
    case (JsonObject field)
    show ?thesis
    proof (cases field)
      case None
      with Responded JsonObject assms show ?thesis
        by (simp add: getOllamaRecommendationsForOrder_try_def split: if_splits)
    next
      case (Some response)
      define numberMatches where
        "numberMatches = match_bounded_digits False [] response"
      from Responded JsonObject Some assms
      have "ids = filter (\<lambda>i. list_ex (\<lambda>p. product_id p = i) pool) (map parseInt numberMatches)
            \<and> \<not> length ids < min 2 limit"
        unfolding getOllamaRecommendationsForOrder_try_def numberMatches_def Let_def
        by (simp split: if_splits del: length_filter_map)
      then show ?thesis
        by (metis not_less)
    qed
  qed
qed (use assms in \<open>simp_all add: getOllamaRecommendationsForOrder_try_def\<close>)

lemma getOllamaRecommendationsForOrder_threshold:
  assumes "getOllamaRecommendationsForOrder l d ord pool limit = (Inr (Some ids), t)"
  shows "min 2 limit \<le> length ids \<and> set ids \<subseteq> product_id ` set pool"
proof -
  from assms have "getOllamaRecommendationsForOrder_try l pool limit = Inr (Some ids)"
    by (auto simp: getOllamaRecommendationsForOrder_def split: if_splits sum.splits option.splits)
  from getOllamaRecommendationsForOrder_try_accepts [OF this] obtain ns where
    ids: "ids = filter (\<lambda>i. list_ex (\<lambda>p. product_id p = i) pool) ns"
    and len: "min 2 limit \<le> length ids"
    by blast
  have "set ids \<subseteq> product_id ` set pool"
    unfolding ids by (rule valid_ids_are_candidates)
  with len show ?thesis
    by blast
qed

lemma getRecommendations_cache_short_ranking:
  assumes "getProductsWithOrderCounts (first_read e) s = (Inr a, s1)"
    and "given productId = Some pid"
    and "find (\<lambda>p. toString (cp_id p) = pid) (arrays (sort_in_place a s1) a) = Some cur"
    and "getOllamaRecommendations_cache (c_ollama e) cur
           (similarProducts (arrays (sort_in_place a s1) a) pid cur limit) limit
         = (Inr (Some ids), t)"
    and "length ids < 2"
  shows "fst (fst (getRecommendations_cache e productId limit s))
         = Inr (similarOrFallback (similarProducts (arrays (sort_in_place a s1) a) pid cur limit)
                  (take limit (arrays (sort_in_place a s1) a)) limit)"
  using assms
  by (simp add: getRecommendations_cache_def getRecommendations_cache_try_def Let_def
        rankedForProduct_cache_def
      split: prod.splits)

text \<open>
  C6, amended. Each ranking function of the Prisma file returns either \<open>null\<close> or a list
  of at least \<open>min(2, limit)\<close> ids, all of them ids of candidates. The ranking function of
  the cache-based file returns whatever valid ids it found, and it is its caller that
  drops a list of fewer than 2 ids: the request is then answered by the candidate list
  when it has at least \<open>limit\<close> products and by the popularity list otherwise.
\<close>

theorem short_rankings_are_not_used:
  "(getOllamaRecommendations l cur pool limit = (Inr (Some ids), t) \<longrightarrow>
      min 2 limit \<le> length ids \<and> set ids \<subseteq> product_id ` set pool)
   \<and> (getOllamaRecommendationsForOrder l d ord pool limit = (Inr (Some oids), ot) \<longrightarrow>
      min 2 limit \<le> length oids \<and> set oids \<subseteq> product_id ` set pool)
   \<and> (getProductsWithOrderCounts (first_read ce) s = (Inr a, s1)
      \<and> given productId = Some cpid
      \<and> find (\<lambda>p. toString (cp_id p) = cpid) (arrays (sort_in_place a s1) a) = Some ccur
      \<and> getOllamaRecommendations_cache (c_ollama ce) ccur
           (similarProducts (arrays (sort_in_place a s1) a) cpid ccur limit) limit
         = (Inr (Some cids), ct)
      \<and> length cids < 2 \<longrightarrow>
      fst (fst (getRecommendations_cache ce productId limit s))
      = Inr (similarOrFallback (similarProducts (arrays (sort_in_place a s1) a) cpid ccur limit)
               (take limit (arrays (sort_in_place a s1) a)) limit))"
  using getOllamaRecommendations_threshold [of l cur pool limit ids t]
    getOllamaRecommendationsForOrder_threshold [of l d ord pool limit oids ot]
    getRecommendations_cache_short_ranking [of ce s a s1 productId cpid ccur limit cids ct]
  by blast

theorem short_rankings_are_not_used_witness:
  "getOllamaRecommendations (llm_says ''Recommended product IDs: 3, 2'') (sku 1 catA)
      [sku 2 catA, sku 3 catA] 2
     = (Inr (Some [3, 2]), [GeneratePOST])
   \<and> min 2 2 \<le> length [3, 2 :: int]
   \<and> getOllamaRecommendationsForOrder (llm_says ''3,2'') shop (bought 1 [1]) [sku 2 catA, sku 3 catA] 2
     = (Inr (Some [3, 2]), [GeneratePOST])
   \<and> getProductsWithOrderCounts catalogue cold
     = (Inr 0, snd (getProductsWithOrderCounts catalogue cold))
   \<and> given (Some ''a3'') = Some ''a3''
   \<and> find (\<lambda>p. toString (cp_id p) = ''a3'')
        (arrays (sort_in_place 0 (snd (getProductsWithOrderCounts catalogue cold))) 0)
     = Some (cached ''a3'' ''B'' 7 50)
   \<and> getOllamaRecommendations_cache (llm_says ''7, 8'') (cached ''a3'' ''B'' 7 50)
        (similarProducts
           (arrays (sort_in_place 0 (snd (getProductsWithOrderCounts catalogue cold))) 0)
           ''a3'' (cached ''a3'' ''B'' 7 50) 1) 1
     = (Inr (Some []), [GeneratePOST])
   \<and> length ([] :: int list) < 2
   \<and> fst (fst (getRecommendations_cache
                  \<lparr>c_ollama = llm_says ''7, 8'', first_read = catalogue, handler_read = catalogue\<rparr>
                  (Some ''a3'') 1 cold))
     = Inr [cached ''a5'' ''B'' 3 40]"
proof -
  let ?s1 = "snd (getProductsWithOrderCounts catalogue cold)"
  let ?ps = "arrays (sort_in_place 0 ?s1) 0"
  let ?e = "\<lparr>c_ollama = llm_says ''7, 8'', first_read = catalogue, handler_read = catalogue\<rparr>"
  have sorted_ps:
    "?ps = [cached ''a3'' ''B'' 7 50, cached ''a5'' ''B'' 3 40, cached ''a4'' ''A'' 2 90,
            cached ''a1'' ''A'' 0 50, cached ''a2'' ''A'' 0 60]"
    by (simp add: cache_defs input_defs)
  have r1: "getOllamaRecommendations (llm_says ''Recommended product IDs: 3, 2'') (sku 1 catA)
              [sku 2 catA, sku 3 catA] 2
            = (Inr (Some [3, 2]), [GeneratePOST])"
    by (simp add: ranking_defs input_defs)
  have r2: "getOllamaRecommendationsForOrder (llm_says ''3,2'') shop (bought 1 [1])
              [sku 2 catA, sku 3 catA] 2
            = (Inr (Some [3, 2]), [GeneratePOST])"
    by (simp add: ranking_defs input_defs)
  have h1: "getProductsWithOrderCounts (first_read ?e) cold = (Inr 0, ?s1)"
    by (simp add: cache_defs input_defs)
  have h2: "given (Some ''a3'') = Some ''a3''"
    by (simp add: given_def)
  have h3: "find (\<lambda>p. toString (cp_id p) = ''a3'') ?ps = Some (cached ''a3'' ''B'' 7 50)"
    unfolding sorted_ps by (simp add: cached_def)
  have similar: "similarProducts ?ps ''a3'' (cached ''a3'' ''B'' 7 50) 1 = [cached ''a5'' ''B'' 3 40]"
    unfolding sorted_ps by (simp add: similarProducts_def scores_close_def cached_def)
  have h4: "getOllamaRecommendations_cache (c_ollama ?e) (cached ''a3'' ''B'' 7 50)
              (similarProducts ?ps ''a3'' (cached ''a3'' ''B'' 7 50) 1) 1
            = (Inr (Some []), [GeneratePOST])"
    unfolding similar by (simp add: ranking_defs input_defs)
  have h5: "length ([] :: int list) < 2"
    by simp
  from r1 short_rankings_are_not_used
         [of "llm_says ''Recommended product IDs: 3, 2''" "sku 1 catA" "[sku 2 catA, sku 3 catA]"
             2 "[3, 2]" "[GeneratePOST]"]
  have c1: "min 2 2 \<le> length [3, 2 :: int]"
    by blast
  from h1 h2 h3 h4 h5
    short_rankings_are_not_used
      [where ce = ?e and s = cold and a = 0 and ?s1.0 = ?s1 and productId = "Some ''a3''"
         and cpid = "''a3''" and ccur = "cached ''a3'' ''B'' 7 50" and limit = 1 and cids = "[]"
         and ct = "[GeneratePOST]"]
  have "fst (fst (getRecommendations_cache ?e (Some ''a3'') 1 cold))
        = Inr (similarOrFallback (similarProducts ?ps ''a3'' (cached ''a3'' ''B'' 7 50) 1)
                 (take 1 ?ps) 1)"
    by blast
  then have c3: "fst (fst (getRecommendations_cache ?e (Some ''a3'') 1 cold))
                 = Inr [cached ''a5'' ''B'' 3 40]"
    unfolding similar by (simp add: similarOrFallback_def)
  from r1 c1 r2 h1 h2 h3 h4 h5 c3 show ?thesis
    by simp
qed

section \<open>The order of the result\<close>

text \<open>
  C4, as stated, fails where the code answers with the popularity list alone. The
  cache-based file never pads: seeded with \<open>a1\<close> and \<open>limit = 2\<close> while the endpoint is
  down, the only candidate is \<open>a2\<close>; the result is the popularity list \<open>a3, a5\<close>, and the
  candidate is not in it. In the Prisma file the \<open>catch\<close> of the product block does the
  same when a query of the block rejects: seeded with product 1 and \<open>limit = 3\<close>, the
  category matches are products 2 and 3, the query for further popular products rejects,
  no ranking is attempted, and the result is the popularity list \<open>6, 2, 3\<close>, in which the
  matches do not come first.
\<close>

theorem popularity_list_alone:
  "similarProducts
      [cached ''a3'' ''B'' 7 50, cached ''a5'' ''B'' 3 40, cached ''a4'' ''A'' 2 90,
       cached ''a1'' ''A'' 0 50, cached ''a2'' ''A'' 0 60]
      ''a1'' (cached ''a1'' ''A'' 0 50) 2
     = [cached ''a2'' ''A'' 0 60]
   \<and> getRecommendations_cache
        \<lparr>c_ollama = llm_down, first_read = catalogue, handler_read = catalogue\<rparr>
        (Some ''a1'') 2 cold
     = ((Inr [cached ''a3'' ''B'' 7 50, cached ''a5'' ''B'' 3 40], [ProbeGET]),
        snd (getRecommendations_cache
               \<lparr>c_ollama = llm_down, first_read = catalogue, handler_read = catalogue\<rparr>
               (Some ''a1'') 2 cold))
   \<and> cached ''a2'' ''A'' 0 60 \<notin> set [cached ''a3'' ''B'' 7 50, cached ''a5'' ''B'' 3 40]
   \<and> similarCategoryProducts
        \<lparr>ollama = llm_off, db = side_shop, storage_fails = only_fails AdditionalQuery\<rparr>
        1 (sku 1 catA)
     = Inr [sku 2 catA, sku 3 catA]
   \<and> getRecommendations
        \<lparr>ollama = llm_off, db = side_shop, storage_fails = only_fails AdditionalQuery\<rparr>
        (Some 1) None 3
     = (Inr [sku 6 catB, sku 2 catA, sku 3 catA], [])"
  by (simp add: prisma_defs cache_defs input_defs)

lemma rankedForProduct_order:
  assumes "ids \<noteq> []"
  shows "rankedForProduct (Some ids) pool limit
         = Some (take limit (List.map_filter (productsMap pool) ids
                             @ filter (\<lambda>p. product_id p \<notin> set ids) pool))"
  using assms by (auto simp: rankedForProduct_def Let_def)

lemma productsMap_finds:
  "i \<in> product_id ` set ps \<Longrightarrow> productsMap ps i \<noteq> None"
  by (simp add: productsMap_def map_of_eq_None_iff image_image)

lemma length_map_filter_all:
  assumes "set ids \<subseteq> product_id ` set ps"
  shows "length (List.map_filter (productsMap ps) ids) = length ids"
proof -
  have "productsMap ps i \<noteq> None" if "i \<in> set ids" for i
    using that assms by (intro productsMap_finds) blast
  then have "filter (\<lambda>i. productsMap ps i \<noteq> None) ids = ids"
    by (simp add: filter_id_conv)
  then show ?thesis
    by (simp add: List.map_filter_def)
qed

lemma rankedForOrder_order:
  assumes "ids \<noteq> []" and "set ids \<subseteq> product_id ` set similar" and "min 2 limit \<le> length ids"
  shows "rankedForOrder (Some ids) similar limit
         = Some (take limit (List.map_filter (productsMap similar) ids
                             @ filter (\<lambda>p. product_id p \<notin> set ids) similar))"
  using assms length_map_filter_all [OF assms(2)]
  by (auto simp: rankedForOrder_def Let_def)

lemma categoryProductsForProduct_order:
  "categoryProductsForProduct similar fb limit
   = (if similar = [] then fb
      else take limit (similar @ filter (\<lambda>p. product_id p \<notin> product_id ` set similar) fb))"
proof -
  have "filter (\<lambda>p. \<not> list_ex (\<lambda>sp. product_id sp = product_id p) similar) fb
        = filter (\<lambda>p. product_id p \<notin> product_id ` set similar) fb"
    by (rule filter_cong) (auto simp: list_ex_iff image_iff)
  then show ?thesis
    by (simp add: categoryProductsForProduct_def)
qed

lemma categoryProductsForOrder_order:
  "categoryProductsForOrder similar fb limit
   = (if similar = [] then fb
      else take limit (similar @ filter (\<lambda>p. product_id p \<notin> product_id ` set similar) fb))"
proof -
  have "filter (\<lambda>p. \<not> list_ex (\<lambda>sp. product_id sp = product_id p) similar) fb
        = filter (\<lambda>p. product_id p \<notin> product_id ` set similar) fb"
    by (rule filter_cong) (auto simp: list_ex_iff image_iff)
  then show ?thesis
    by (simp add: categoryProductsForOrder_def)
qed

lemma product_request:
  assumes "\<not> truthy orderId" and "pid \<noteq> 0"
    and "fallbackProducts_query e (Some pid) limit = Inr fb"
  shows "fst (getRecommendations e (Some pid) orderId limit)
         = Inr (fst (productRecommendations e (fst (useOllama_of (ollama e))) pid limit fb))"
  using assms
  by (cases "useOllama_of (ollama e)")
     (auto simp: getRecommendations_def truthy_def split: prod.splits option.splits)

lemma order_request:
  assumes "oid \<noteq> 0" and "fallbackProducts_query e productId limit = Inr ofb"
  shows "fst (getRecommendations e productId (Some oid) limit)
         = Inr (fst (orderRecommendations e (fst (useOllama_of (ollama e))) oid limit ofb))"
  using assms
  by (cases "useOllama_of (ollama e)")
     (auto simp: getRecommendations_def truthy_def split: prod.splits option.splits)

lemma unseeded_request:
  assumes "\<not> truthy orderId" and "\<not> truthy productId"
    and "fallbackProducts_query e productId limit = Inr fb"
  shows "fst (getRecommendations e productId orderId limit) = Inr fb"
  using assms
  by (cases "useOllama_of (ollama e)")
     (auto simp: getRecommendations_def truthy_def split: prod.splits option.splits)

lemma product_query_rejects:
  assumes "\<not> truthy orderId" and "pid \<noteq> 0"
    and "fallbackProducts_query e (Some pid) limit = Inr fb"
    and "storage_fails e CurrentProductQuery"
  shows "fst (getRecommendations e (Some pid) orderId limit) = Inr fb"
  using assms(4)
  by (simp add: product_request [OF assms(1-3)] productRecommendations_def
      productRecommendations_try_def prisma_def)

lemma product_not_found:
  assumes "\<not> truthy orderId" and "pid \<noteq> 0"
    and "fallbackProducts_query e (Some pid) limit = Inr fb"
    and "find (\<lambda>p. product_id p = pid) (products (db e)) = None"
  shows "fst (getRecommendations e (Some pid) orderId limit) = Inr fb"
  using assms(4)
  by (simp add: product_request [OF assms(1-3)] productRecommendations_def
      productRecommendations_try_def prisma_def)

lemma product_without_categories:
  assumes "\<not> truthy orderId" and "pid \<noteq> 0"
    and "fallbackProducts_query e (Some pid) limit = Inr fb"
    and "find (\<lambda>p. product_id p = pid) (products (db e)) = Some cur"
    and "categories cur = []"
  shows "fst (getRecommendations e (Some pid) orderId limit) = Inr fb"
  using assms(4,5)
  by (simp add: product_request [OF assms(1-3)] productRecommendations_def
      productRecommendations_try_def prisma_def)

lemma similar_query_rejects:
  assumes "\<not> truthy orderId" and "pid \<noteq> 0"
    and "fallbackProducts_query e (Some pid) limit = Inr fb"
    and "find (\<lambda>p. product_id p = pid) (products (db e)) = Some cur"
    and "storage_fails e SimilarQuery"
  shows "fst (getRecommendations e (Some pid) orderId limit) = Inr fb"
  using assms(4,5)
  by (simp add: product_request [OF assms(1-3)] productRecommendations_def
      productRecommendations_try_def similarCategoryProducts_def prisma_def)

lemma additional_query_rejects:
  assumes "\<not> truthy orderId" and "pid \<noteq> 0"
    and "fallbackProducts_query e (Some pid) limit = Inr fb"
    and "find (\<lambda>p. product_id p = pid) (products (db e)) = Some cur"
    and "\<not> storage_fails e CurrentProductQuery" and "categories cur \<noteq> []"
    and "similarCategoryProducts e pid cur = Inr similar"
    and "length similar < limit" and "storage_fails e AdditionalQuery"
  shows "fst (getRecommendations e (Some pid) orderId limit) = Inr fb"
  using assms(4-9)
  by (simp add: product_request [OF assms(1-3)] productRecommendations_def
      productRecommendations_try_def productsToRank_def prisma_def)

lemma product_request_ranked:
  assumes "\<not> truthy orderId" and "pid \<noteq> 0"
    and "fallbackProducts_query e (Some pid) limit = Inr fb"
    and "find (\<lambda>p. product_id p = pid) (products (db e)) = Some cur"
    and "\<not> storage_fails e CurrentProductQuery" and "categories cur \<noteq> []"
    and "similarCategoryProducts e pid cur = Inr similar"
    and "productsToRank e pid similar limit = Inr pool"
    and "fst (useOllama_of (ollama e))" and "limit \<le> length pool" and "0 < limit"
    and "getOllamaRecommendations (ollama e) cur pool limit = (Inr (Some ids), t)"
  shows "fst (getRecommendations e (Some pid) orderId limit)
         = Inr (take limit (List.map_filter (productsMap pool) ids
                            @ filter (\<lambda>p. product_id p \<notin> set ids) pool))"
proof -
  from getOllamaRecommendations_threshold [OF assms(12)] assms(11) have "ids \<noteq> []"
    by auto
  then show ?thesis
    using assms(4-12)
    by (simp add: product_request [OF assms(1-3)] productRecommendations_def
        productRecommendations_try_def prisma_def rankedForProduct_order)
qed

lemma product_request_unranked:
  assumes "\<not> truthy orderId" and "pid \<noteq> 0"
    and "fallbackProducts_query e (Some pid) limit = Inr fb"
    and "find (\<lambda>p. product_id p = pid) (products (db e)) = Some cur"
    and "\<not> storage_fails e CurrentProductQuery" and "categories cur \<noteq> []"
    and "similarCategoryProducts e pid cur = Inr similar"
    and "productsToRank e pid similar limit = Inr pool"
    and "\<not> fst (useOllama_of (ollama e)) \<or> length pool < limit
         \<or> fst (getOllamaRecommendations (ollama e) cur pool limit) = Inr None"
  shows "fst (getRecommendations e (Some pid) orderId limit)
         = Inr (if similar = [] then fb
                else take limit
                       (similar @ filter (\<lambda>p. product_id p \<notin> product_id ` set similar) fb))"
proof -
  obtain r t where r: "getOllamaRecommendations (ollama e) cur pool limit = (r, t)"
    by (cases "getOllamaRecommendations (ollama e) cur pool limit")
  from assms(9) r
  have "\<not> (fst (useOllama_of (ollama e)) \<and> limit \<le> length pool) \<or> r = Inr None"
    by auto
  with r assms(4-8) show ?thesis
    by (auto simp: product_request [OF assms(1-3)] productRecommendations_def
          productRecommendations_try_def prisma_def rankedForProduct_def
          categoryProductsForProduct_order)
qed

lemma order_query_rejects:
  assumes "oid \<noteq> 0" and "fallbackProducts_query e productId limit = Inr ofb"
    and "storage_fails e OrderQuery"
  shows "fst (getRecommendations e productId (Some oid) limit) = Inr ofb"
  using assms(3)
  by (simp add: order_request [OF assms(1,2)] orderRecommendations_def
      orderRecommendations_try_def prisma_def)

lemma order_not_found:
  assumes "oid \<noteq> 0" and "fallbackProducts_query e productId limit = Inr ofb"
    and "find (\<lambda>row. order_id row = oid) (orders (db e)) = None"
  shows "fst (getRecommendations e productId (Some oid) limit) = Inr ofb"
  using assms(3)
  by (simp add: order_request [OF assms(1,2)] orderRecommendations_def
      orderRecommendations_try_def prisma_def)

lemma order_without_categories:
  assumes "oid \<noteq> 0" and "fallbackProducts_query e productId limit = Inr ofb"
    and "find (\<lambda>row. order_id row = oid) (orders (db e)) = Some ord"
    and "items ord = [] \<or> categoryIds_of (db e) ord = []"
  shows "fst (getRecommendations e productId (Some oid) limit) = Inr ofb"
  using assms(3,4)
  by (auto simp: order_request [OF assms(1,2)] orderRecommendations_def
      orderRecommendations_try_def prisma_def)

lemma order_similar_query_rejects:
  assumes "oid \<noteq> 0" and "fallbackProducts_query e productId limit = Inr ofb"
    and "find (\<lambda>row. order_id row = oid) (orders (db e)) = Some ord"
    and "storage_fails e OrderSimilarQuery"
  shows "fst (getRecommendations e productId (Some oid) limit) = Inr ofb"
  using assms(3,4)
  by (simp add: order_request [OF assms(1,2)] orderRecommendations_def
      orderRecommendations_try_def similarCategoryProducts_order_def prisma_def)

lemma order_request_ranked:
  assumes "oid \<noteq> 0" and "fallbackProducts_query e productId limit = Inr ofb"
    and "find (\<lambda>row. order_id row = oid) (orders (db e)) = Some ord"
    and "\<not> storage_fails e OrderQuery"
    and "items ord \<noteq> []" and "categoryIds_of (db e) ord \<noteq> []"
    and "similarCategoryProducts_order e ord limit = Inr similar"
    and "fst (useOllama_of (ollama e))" and "2 \<le> length similar" and "0 < limit"
    and "getOllamaRecommendationsForOrder (ollama e) (db e) ord similar limit
         = (Inr (Some ids), t)"
  shows "fst (getRecommendations e productId (Some oid) limit)
         = Inr (take limit (List.map_filter (productsMap similar) ids
                            @ filter (\<lambda>p. product_id p \<notin> set ids) similar))"
proof -
  from getOllamaRecommendationsForOrder_threshold [OF assms(11)] assms(10)
  have "ids \<noteq> []" and "set ids \<subseteq> product_id ` set similar" and "min 2 limit \<le> length ids"
    by auto
  from rankedForOrder_order [OF this]
  have "rankedForOrder (Some ids) similar limit
        = Some (take limit (List.map_filter (productsMap similar) ids
                            @ filter (\<lambda>p. product_id p \<notin> set ids) similar))" .
  with assms(3-11) show ?thesis
    by (simp add: order_request [OF assms(1,2)] orderRecommendations_def
        orderRecommendations_try_def prisma_def)
qed

lemma order_request_unranked:
  assumes "oid \<noteq> 0" and "fallbackProducts_query e productId limit = Inr ofb"
    and "find (\<lambda>row. order_id row = oid) (orders (db e)) = Some ord"
    and "\<not> storage_fails e OrderQuery"
    and "items ord \<noteq> []" and "categoryIds_of (db e) ord \<noteq> []"
    and "similarCategoryProducts_order e ord limit = Inr similar"
    and "\<not> fst (useOllama_of (ollama e)) \<or> length similar < 2
         \<or> fst (getOllamaRecommendationsForOrder (ollama e) (db e) ord similar limit) = Inr None"
  shows "fst (getRecommendations e productId (Some oid) limit)
         = Inr (if similar = [] then ofb
                else take limit
                       (similar @ filter (\<lambda>p. product_id p \<notin> product_id ` set similar) ofb))"
proof -
  obtain r t where r: "getOllamaRecommendationsForOrder (ollama e) (db e) ord similar limit = (r, t)"
    by (cases "getOllamaRecommendationsForOrder (ollama e) (db e) ord similar limit")
  from assms(8) r
  have "\<not> (fst (useOllama_of (ollama e)) \<and> 2 \<le> length similar) \<or> r = Inr None"
    by auto
  with r assms(3-7) show ?thesis
    by (auto simp: order_request [OF assms(1,2)] orderRecommendations_def
          orderRecommendations_try_def prisma_def rankedForOrder_def
          categoryProductsForOrder_order)
qed

lemma cache_request_unseeded:
  assumes "getProductsWithOrderCounts (first_read e) s = (Inr a, s1)"
    and "arrays (sort_in_place a s1) a = ps"
    and "given productId = None"
  shows "fst (fst (getRecommendations_cache e productId limit s)) = Inr (take limit ps)"
  using assms
  by (simp add: getRecommendations_cache_def getRecommendations_cache_try_def Let_def)

lemma cache_seed_not_found:
  assumes "getProductsWithOrderCounts (first_read e) s = (Inr a, s1)"
    and "arrays (sort_in_place a s1) a = ps"
    and "given productId = Some pid"
    and "find (\<lambda>p. toString (cp_id p) = pid) ps = None"
  shows "fst (fst (getRecommendations_cache e productId limit s)) = Inr (take limit ps)"
  using assms
  by (simp add: getRecommendations_cache_def getRecommendations_cache_try_def Let_def)

lemma cache_request_unranked:
  assumes "getProductsWithOrderCounts (first_read e) s = (Inr a, s1)"
    and "arrays (sort_in_place a s1) a = ps"
    and "given productId = Some pid"
    and "find (\<lambda>p. toString (cp_id p) = pid) ps = Some cur"
    and "similarProducts ps pid cur limit = similar"
    and "\<not> fst (useOllama_of (c_ollama e)) \<or> length similar < limit
         \<or> fst (getOllamaRecommendations_cache (c_ollama e) cur similar limit) = Inr None"
  shows "fst (fst (getRecommendations_cache e productId limit s))
         = Inr (if limit \<le> length similar then take limit similar else take limit ps)"
proof -
  obtain u t0 where u: "useOllama_of (c_ollama e) = (u, t0)"
    by (cases "useOllama_of (c_ollama e)")
  obtain r t where r: "getOllamaRecommendations_cache (c_ollama e) cur similar limit = (r, t)"
    by (cases "getOllamaRecommendations_cache (c_ollama e) cur similar limit")
  from assms(6) u r have "\<not> (u \<and> limit \<le> length similar) \<or> r = Inr None"
    by auto
  with u r assms(1-5) show ?thesis
    by (auto simp: getRecommendations_cache_def getRecommendations_cache_try_def Let_def
          rankedForProduct_cache_def similarOrFallback_def)
qed

lemma cache_request_few_ids:
  assumes "getProductsWithOrderCounts (first_read e) s = (Inr a, s1)"
    and "arrays (sort_in_place a s1) a = ps"
    and "given productId = Some pid"
    and "find (\<lambda>p. toString (cp_id p) = pid) ps = Some cur"
    and "similarProducts ps pid cur limit = similar"
    and "getOllamaRecommendations_cache (c_ollama e) cur similar limit = (Inr (Some ids), t)"
    and "length ids < 2"
  shows "fst (fst (getRecommendations_cache e productId limit s))
         = Inr (if limit \<le> length similar then take limit similar else take limit ps)"
  using getRecommendations_cache_short_ranking [of e s a s1 productId pid cur limit ids t] assms
  by (simp add: similarOrFallback_def)

text \<open>
  The ids of the cached products are ObjectIds, and \<open>p.id === id\<close> compares them with
  the numbers read from the model's answer. No candidate passes that test, so the
  ranking function of the cache-based file answers \<open>null\<close> or an empty list, and the
  request is answered as if no ranking had been attempted.
\<close>

lemma no_number_is_an_ObjectId:
  assumes "list_all (\<lambda>p. is_ObjectId (cp_id p)) candidates"
  shows "filter (\<lambda>i. list_ex (\<lambda>p. strict_equals (cp_id p) i) candidates) ns = []"
proof -
  have "\<not> strict_equals (cp_id p) i" if "p \<in> set candidates" for p i
  proof -
    from assms that have "is_ObjectId (cp_id p)"
      by (simp add: list_all_iff)
    then show ?thesis
      by (cases "cp_id p") simp_all
  qed
  then show ?thesis
    by (auto simp: filter_empty_conv list_ex_iff)
qed

lemma getOllamaRecommendations_cache_ObjectIds:
  assumes "list_all (\<lambda>p. is_ObjectId (cp_id p)) candidates"
  shows "fst (getOllamaRecommendations_cache l cur candidates limit) = Inr None
         \<or> fst (getOllamaRecommendations_cache l cur candidates limit) = Inr (Some [])"
  by (auto simp: getOllamaRecommendations_cache_def getOllamaRecommendations_cache_try_def
      no_number_is_an_ObjectId [OF assms] Let_def
      split: fetch_outcome.splits json_body.splits option.splits sum.splits)

lemma cache_request_ObjectIds:
  assumes "getProductsWithOrderCounts (first_read e) s = (Inr a, s1)"
    and "arrays (sort_in_place a s1) a = ps"
    and "given productId = Some pid"
    and "find (\<lambda>p. toString (cp_id p) = pid) ps = Some cur"
    and "similarProducts ps pid cur limit = similar"
    and "list_all (\<lambda>p. is_ObjectId (cp_id p)) similar"
  shows "fst (fst (getRecommendations_cache e productId limit s))
         = Inr (if limit \<le> length similar then take limit similar else take limit ps)"
proof -
  obtain r t where r: "getOllamaRecommendations_cache (c_ollama e) cur similar limit = (r, t)"
    by (cases "getOllamaRecommendations_cache (c_ollama e) cur similar limit")
  from getOllamaRecommendations_cache_ObjectIds [OF assms(6), of "c_ollama e" cur limit] r
  consider "r = Inr None" | "r = Inr (Some [])"
    by auto
  then show ?thesis
  proof cases
    case 1
    with r have "fst (getOllamaRecommendations_cache (c_ollama e) cur similar limit) = Inr None"
      by simp
    then show ?thesis
      by (intro cache_request_unranked [OF assms(1-5)] disjI2)
  next
    case 2
    with r have "getOllamaRecommendations_cache (c_ollama e) cur similar limit
                 = (Inr (Some []), t)"
      by simp
    then show ?thesis
      by (rule cache_request_few_ids [OF assms(1-5)]) simp
  qed
qed

text \<open>
  C4, amended. In the Prisma file, for a request whose first popularity query is
  answered with the list \<open>fallbackProducts\<close>: if a query of the product block or of the
  order block rejects, if the seed product or the order does not exist, if the order has
  no items, or if the seed product (the products of the order) has no category, the
  result is \<open>fallbackProducts\<close> alone, and so it is for a request with neither a product
  nor an order. Otherwise, when the ranking function returns ids (\<open>limit > 0\<close>), the
  result is the first \<open>limit\<close> entries of: the products of those ids in the model's order,
  followed by the candidates whose id was not named, in candidate order. When the ranking
  is skipped or returns \<open>null\<close>, the result is \<open>fallbackProducts\<close> if there is no
  category match, and otherwise the first \<open>limit\<close> entries of: the category matches in
  query order, followed by \<open>fallbackProducts\<close> without the products already present.

  In the cache-based file, for a request whose storage read is answered: without a
  \<open>productId\<close>, or when no product has that id, the result is the popularity list.
  Otherwise, when the ranking is skipped, returns \<open>null\<close> or returns fewer than 2 ids, the
  result is the first \<open>limit\<close> candidates if there are that many and the popularity list
  alone otherwise, without padding.
\<close>

theorem result_order:
  "(\<not> truthy orderId \<longrightarrow> pid \<noteq> 0 \<longrightarrow> fallbackProducts_query e (Some pid) limit = Inr fb \<longrightarrow>
      (storage_fails e CurrentProductQuery \<longrightarrow>
         fst (getRecommendations e (Some pid) orderId limit) = Inr fb)
      \<and> (find (\<lambda>p. product_id p = pid) (products (db e)) = None \<longrightarrow>
           fst (getRecommendations e (Some pid) orderId limit) = Inr fb)
      \<and> (find (\<lambda>p. product_id p = pid) (products (db e)) = Some cur \<longrightarrow>
           (categories cur = [] \<longrightarrow>
              fst (getRecommendations e (Some pid) orderId limit) = Inr fb)
           \<and> (storage_fails e SimilarQuery \<longrightarrow>
                fst (getRecommendations e (Some pid) orderId limit) = Inr fb)
           \<and> (\<not> storage_fails e CurrentProductQuery \<longrightarrow> categories cur \<noteq> [] \<longrightarrow>
                similarCategoryProducts e pid cur = Inr similar \<longrightarrow>
                (length similar < limit \<longrightarrow> storage_fails e AdditionalQuery \<longrightarrow>
                   fst (getRecommendations e (Some pid) orderId limit) = Inr fb)
                \<and> (productsToRank e pid similar limit = Inr pool \<longrightarrow>
                     (fst (useOllama_of (ollama e)) \<longrightarrow> limit \<le> length pool \<longrightarrow> 0 < limit \<longrightarrow>
                        getOllamaRecommendations (ollama e) cur pool limit
                          = (Inr (Some ids), t) \<longrightarrow>
                        fst (getRecommendations e (Some pid) orderId limit)
                        = Inr (take limit (List.map_filter (productsMap pool) ids
                                           @ filter (\<lambda>p. product_id p \<notin> set ids) pool)))
                     \<and> (\<not> fst (useOllama_of (ollama e)) \<or> length pool < limit
                         \<or> fst (getOllamaRecommendations (ollama e) cur pool limit)
                             = Inr None \<longrightarrow>
                        fst (getRecommendations e (Some pid) orderId limit)
                        = Inr (if similar = [] then fb
                               else take limit
                                      (similar
                                       @ filter (\<lambda>p. product_id p \<notin> product_id ` set similar)
                                           fb)))))))
   \<and> (oid \<noteq> 0 \<longrightarrow> fallbackProducts_query e productId limit = Inr ofb \<longrightarrow>
        (storage_fails e OrderQuery \<longrightarrow>
           fst (getRecommendations e productId (Some oid) limit) = Inr ofb)
        \<and> (find (\<lambda>row. order_id row = oid) (orders (db e)) = None \<longrightarrow>
             fst (getRecommendations e productId (Some oid) limit) = Inr ofb)
        \<and> (find (\<lambda>row. order_id row = oid) (orders (db e)) = Some ord \<longrightarrow>
             (items ord = [] \<or> categoryIds_of (db e) ord = [] \<longrightarrow>
                fst (getRecommendations e productId (Some oid) limit) = Inr ofb)
             \<and> (storage_fails e OrderSimilarQuery \<longrightarrow>
                  fst (getRecommendations e productId (Some oid) limit) = Inr ofb)
             \<and> (\<not> storage_fails e OrderQuery \<longrightarrow> items ord \<noteq> [] \<longrightarrow>
                  categoryIds_of (db e) ord \<noteq> [] \<longrightarrow>
                  similarCategoryProducts_order e ord limit = Inr osimilar \<longrightarrow>
                  (fst (useOllama_of (ollama e)) \<longrightarrow> 2 \<le> length osimilar \<longrightarrow> 0 < limit \<longrightarrow>
                     getOllamaRecommendationsForOrder (ollama e) (db e) ord osimilar limit
                       = (Inr (Some oids), ot) \<longrightarrow>
                     fst (getRecommendations e productId (Some oid) limit)
                     = Inr (take limit (List.map_filter (productsMap osimilar) oids
                                        @ filter (\<lambda>p. product_id p \<notin> set oids) osimilar)))
                  \<and> (\<not> fst (useOllama_of (ollama e)) \<or> length osimilar < 2
                      \<or> fst (getOllamaRecommendationsForOrder (ollama e) (db e) ord osimilar
                               limit)
                          = Inr None \<longrightarrow>
                     fst (getRecommendations e productId (Some oid) limit)
                     = Inr (if osimilar = [] then ofb
                            else take limit
                                   (osimilar
                                    @ filter (\<lambda>p. product_id p \<notin> product_id ` set osimilar)
                                        ofb))))))
   \<and> (\<not> truthy orderId \<longrightarrow> \<not> truthy productId \<longrightarrow>
        fallbackProducts_query e productId limit = Inr ufb \<longrightarrow>
        fst (getRecommendations e productId orderId limit) = Inr ufb)
   \<and> (getProductsWithOrderCounts (first_read ce) s = (Inr a, s1) \<longrightarrow>
        arrays (sort_in_place a s1) a = cps \<longrightarrow>
        (given cproductId = None \<longrightarrow>
           fst (fst (getRecommendations_cache ce cproductId limit s)) = Inr (take limit cps))
        \<and> (given cproductId = Some cpid \<longrightarrow>
             (find (\<lambda>p. toString (cp_id p) = cpid) cps = None \<longrightarrow>
                fst (fst (getRecommendations_cache ce cproductId limit s))
                = Inr (take limit cps))
             \<and> (find (\<lambda>p. toString (cp_id p) = cpid) cps = Some ccur \<longrightarrow>
                  similarProducts cps cpid ccur limit = csimilar \<longrightarrow>
                  (\<not> fst (useOllama_of (c_ollama ce)) \<or> length csimilar < limit
                   \<or> fst (getOllamaRecommendations_cache (c_ollama ce) ccur csimilar limit)
                       = Inr None \<longrightarrow>
                     fst (fst (getRecommendations_cache ce cproductId limit s))
                     = Inr (if limit \<le> length csimilar then take limit csimilar
                            else take limit cps))
                  \<and> (getOllamaRecommendations_cache (c_ollama ce) ccur csimilar limit
                        = (Inr (Some cids), ct) \<longrightarrow>
                      length cids < 2 \<longrightarrow>
                      fst (fst (getRecommendations_cache ce cproductId limit s))
                      = Inr (if limit \<le> length csimilar then take limit csimilar
                             else take limit cps)))))"
  apply (intro conjI impI)
  subgoal by (rule product_query_rejects; assumption)
  subgoal by (rule product_not_found; assumption)
  subgoal by (rule product_without_categories; assumption)
  subgoal by (rule similar_query_rejects; assumption)
  subgoal by (rule additional_query_rejects; assumption)
  subgoal by (rule product_request_ranked; assumption)
  subgoal by (rule product_request_unranked; assumption)
  subgoal by (rule order_query_rejects; assumption)
  subgoal by (rule order_not_found; assumption)
  subgoal by (rule order_without_categories; assumption)
  subgoal by (rule order_similar_query_rejects; assumption)
  subgoal by (rule order_request_ranked; assumption)
  subgoal by (rule order_request_unranked; assumption)
  subgoal by (rule unseeded_request; assumption)
  subgoal by (rule cache_request_unseeded; assumption)
  subgoal by (rule cache_seed_not_found; assumption)
  subgoal by (rule cache_request_unranked; assumption)
  subgoal by (rule cache_request_few_ids; assumption)
  done

theorem result_order_witness:
  "fst (getRecommendations
          \<lparr>ollama = llm_off, db = side_shop, storage_fails = only_fails CurrentProductQuery\<rparr>
          (Some 1) None 3)
     = Inr [sku 6 catB, sku 2 catA, sku 3 catA]
   \<and> fst (getRecommendations
             \<lparr>ollama = llm_off, db = side_shop, storage_fails = storage_up\<rparr> (Some 42) None 3)
     = Inr [sku 1 catA, sku 6 catB, sku 2 catA]
   \<and> fst (getRecommendations
             \<lparr>ollama = llm_off, db = side_shop, storage_fails = storage_up\<rparr> (Some 4) None 3)
     = Inr [sku 1 catA, sku 6 catB, sku 2 catA]
   \<and> fst (getRecommendations
             \<lparr>ollama = llm_off, db = side_shop, storage_fails = only_fails SimilarQuery\<rparr>
             (Some 1) None 3)
     = Inr [sku 6 catB, sku 2 catA, sku 3 catA]
   \<and> fst (getRecommendations
             \<lparr>ollama = llm_off, db = side_shop, storage_fails = only_fails AdditionalQuery\<rparr>
             (Some 1) None 3)
     = Inr [sku 6 catB, sku 2 catA, sku 3 catA]
   \<and> getOllamaRecommendations (llm_says ''Recommended product IDs: 4, 2'') (sku 1 catA)
        [sku 2 catA, sku 3 catA, sku 4 catA, sku 5 catA] 3
     = (Inr (Some [4, 2]), [GeneratePOST])
   \<and> fst (getRecommendations
             \<lparr>ollama = llm_says ''Recommended product IDs: 4, 2'', db = shop,
               storage_fails = storage_up\<rparr>
             (Some 1) None 3)
     = Inr [sku 4 catA, sku 2 catA, sku 3 catA]
   \<and> fst (getRecommendations
             \<lparr>ollama = llm_off, db = side_shop, storage_fails = storage_up\<rparr> (Some 1) None 3)
     = Inr [sku 2 catA, sku 3 catA, sku 6 catB]
   \<and> getOllamaRecommendations (llm_says ''none'') (sku 1 catA)
        [sku 2 catA, sku 3 catA, sku 6 catB, plain 4] 3
     = (Inr None, [GeneratePOST])
   \<and> fst (getRecommendations
             \<lparr>ollama = llm_says ''none'', db = side_shop, storage_fails = storage_up\<rparr>
             (Some 1) None 3)
     = Inr [sku 2 catA, sku 3 catA, sku 6 catB]
   \<and> fst (getRecommendations
             \<lparr>ollama = llm_off, db = side_shop, storage_fails = only_fails OrderQuery\<rparr>
             None (Some 7) 2)
     = Inr [sku 1 catA, sku 6 catB]
   \<and> fst (getRecommendations
             \<lparr>ollama = llm_off, db = side_shop, storage_fails = storage_up\<rparr> None (Some 5) 2)
     = Inr [sku 1 catA, sku 6 catB]
   \<and> fst (getRecommendations
             \<lparr>ollama = llm_off, db = side_shop, storage_fails = storage_up\<rparr> None (Some 8) 2)
     = Inr [sku 1 catA, sku 6 catB]
   \<and> fst (getRecommendations
             \<lparr>ollama = llm_off, db = side_shop, storage_fails = storage_up\<rparr> None (Some 9) 2)
     = Inr [sku 1 catA, sku 6 catB]
   \<and> fst (getRecommendations
             \<lparr>ollama = llm_off, db = side_shop, storage_fails = only_fails OrderSimilarQuery\<rparr>
             None (Some 7) 2)
     = Inr [sku 1 catA, sku 6 catB]
   \<and> getOllamaRecommendationsForOrder (llm_says ''3, 2'') shop (bought 1 [1])
        [sku 2 catA, sku 3 catA, sku 4 catA, sku 5 catA] 2
     = (Inr (Some [3, 2]), [GeneratePOST])
   \<and> fst (getRecommendations
             \<lparr>ollama = llm_says ''3, 2'', db = shop, storage_fails = storage_up\<rparr>
             None (Some 1) 2)
     = Inr [sku 3 catA, sku 2 catA]
   \<and> getOllamaRecommendationsForOrder (llm_says ''3, 2'') side_shop (bought 7 [1, 99])
        [sku 2 catA, sku 3 catA] 2
     = (Inr None, [])
   \<and> fst (getRecommendations
             \<lparr>ollama = llm_says ''3, 2'', db = side_shop, storage_fails = storage_up\<rparr>
             None (Some 7) 2)
     = Inr [sku 2 catA, sku 3 catA]
   \<and> fst (getRecommendations
             \<lparr>ollama = llm_off, db = shop, storage_fails = storage_up\<rparr> None None 2)
     = Inr [sku 1 catA, sku 2 catA]
   \<and> fst (fst (getRecommendations_cache
                  \<lparr>c_ollama = llm_down, first_read = catalogue, handler_read = catalogue\<rparr>
                  None 2 cold))
     = Inr [cached ''a3'' ''B'' 7 50, cached ''a5'' ''B'' 3 40]
   \<and> fst (fst (getRecommendations_cache
                  \<lparr>c_ollama = llm_down, first_read = catalogue, handler_read = catalogue\<rparr>
                  (Some ''zz'') 2 cold))
     = Inr [cached ''a3'' ''B'' 7 50, cached ''a5'' ''B'' 3 40]
   \<and> fst (fst (getRecommendations_cache
                  \<lparr>c_ollama = llm_down, first_read = catalogue, handler_read = catalogue\<rparr>
                  (Some ''a1'') 2 cold))
     = Inr [cached ''a3'' ''B'' 7 50, cached ''a5'' ''B'' 3 40]
   \<and> getOllamaRecommendations_cache (llm_says ''1, 2'') (cached ''a1'' ''A'' 0 50)
        [cached ''a2'' ''A'' 0 60] 1
     = (Inr (Some []), [GeneratePOST])
   \<and> fst (fst (getRecommendations_cache
                  \<lparr>c_ollama = llm_says ''1, 2'', first_read = catalogue,
                    handler_read = catalogue\<rparr>
                  (Some ''a1'') 1 cold))
     = Inr [cached ''a2'' ''A'' 0 60]"
proof -
  let ?up = "\<lparr>ollama = llm_off, db = side_shop, storage_fails = storage_up\<rparr>"
  let ?fb = "[sku 6 catB, sku 2 catA, sku 3 catA]"
  let ?fb' = "[sku 1 catA, sku 6 catB, sku 2 catA]"
  let ?ofb = "[sku 1 catA, sku 6 catB]"
  have unset: "\<not> truthy None"
    by (simp add: truthy_def)
  have set1: "(1::int) \<noteq> 0" and set4: "(4::int) \<noteq> 0" and set5: "(5::int) \<noteq> 0"
    and set7: "(7::int) \<noteq> 0" and set8: "(8::int) \<noteq> 0" and set9: "(9::int) \<noteq> 0"
    and set42: "(42::int) \<noteq> 0"
    by simp_all

  txt \<open>The product block: the query for the seed rejects.\<close>
  let ?e1 = "\<lparr>ollama = llm_off, db = side_shop, storage_fails = only_fails CurrentProductQuery\<rparr>"
  have fb1: "fallbackProducts_query ?e1 (Some 1) 3 = Inr ?fb"
    by (simp add: prisma_defs input_defs)
  have fails1: "storage_fails ?e1 CurrentProductQuery"
    by (simp add: only_fails_def)
  note r1 = result_order
    [THEN conjunct1, rule_format, OF unset set1 fb1, THEN conjunct1, rule_format, OF fails1]

  txt \<open>There is no product with the id of the seed.\<close>
  have fb2: "fallbackProducts_query ?up (Some 42) 3 = Inr ?fb'"
    by (simp add: prisma_defs input_defs)
  have missing: "find (\<lambda>p. product_id p = 42) (products (db ?up)) = None"
    by (simp add: input_defs)
  note r2 = result_order
    [THEN conjunct1, rule_format, OF unset set42 fb2, THEN conjunct2, THEN conjunct1,
     rule_format, OF missing]

  txt \<open>The seed has no category.\<close>
  have fb3: "fallbackProducts_query ?up (Some 4) 3 = Inr ?fb'"
    by (simp add: prisma_defs input_defs)
  have found4: "find (\<lambda>p. product_id p = 4) (products (db ?up)) = Some (plain 4)"
    by (simp add: input_defs)
  have bare: "categories (plain 4) = []"
    by (simp add: plain_def)
  note r3 = result_order
    [THEN conjunct1, rule_format, OF unset set4 fb3, THEN conjunct2, THEN conjunct2,
     rule_format, OF found4, THEN conjunct1, rule_format, OF bare]

  txt \<open>The query for the category matches rejects.\<close>
  let ?e4 = "\<lparr>ollama = llm_off, db = side_shop, storage_fails = only_fails SimilarQuery\<rparr>"
  have fb4: "fallbackProducts_query ?e4 (Some 1) 3 = Inr ?fb"
    by (simp add: prisma_defs input_defs)
  have found1_4: "find (\<lambda>p. product_id p = 1) (products (db ?e4)) = Some (sku 1 catA)"
    by (simp add: input_defs)
  have fails4: "storage_fails ?e4 SimilarQuery"
    by (simp add: only_fails_def)
  note r4 = result_order
    [THEN conjunct1, rule_format, OF unset set1 fb4, THEN conjunct2, THEN conjunct2,
     rule_format, OF found1_4, THEN conjunct2, THEN conjunct1, rule_format, OF fails4]

  txt \<open>The query for further popular products rejects.\<close>
  let ?e5 = "\<lparr>ollama = llm_off, db = side_shop, storage_fails = only_fails AdditionalQuery\<rparr>"
  have fb5: "fallbackProducts_query ?e5 (Some 1) 3 = Inr ?fb"
    by (simp add: prisma_defs input_defs)
  have found1_5: "find (\<lambda>p. product_id p = 1) (products (db ?e5)) = Some (sku 1 catA)"
    by (simp add: input_defs)
  have answered5: "\<not> storage_fails ?e5 CurrentProductQuery"
    by (simp add: only_fails_def)
  have categorised: "categories (sku 1 catA) \<noteq> []"
    by (simp add: sku_def)
  have similar5: "similarCategoryProducts ?e5 1 (sku 1 catA) = Inr [sku 2 catA, sku 3 catA]"
    by (simp add: prisma_defs input_defs)
  have few: "length [sku 2 catA, sku 3 catA] < 3"
    by simp
  have fails5: "storage_fails ?e5 AdditionalQuery"
    by (simp add: only_fails_def)
  note r5 = result_order
    [THEN conjunct1, rule_format, OF unset set1 fb5, THEN conjunct2, THEN conjunct2,
     rule_format, OF found1_5, THEN conjunct2, THEN conjunct2, rule_format,
     OF answered5 categorised similar5, THEN conjunct1, rule_format, OF few fails5]

  txt \<open>The model ranks the candidates.\<close>
  let ?e6 = "\<lparr>ollama = llm_says ''Recommended product IDs: 4, 2'', db = shop,
               storage_fails = storage_up\<rparr>"
  let ?pool6 = "[sku 2 catA, sku 3 catA, sku 4 catA, sku 5 catA]"
  have fb6: "fallbackProducts_query ?e6 (Some 1) 3 = Inr [sku 2 catA, sku 3 catA, sku 4 catA]"
    by (simp add: prisma_defs input_defs)
  have found6: "find (\<lambda>p. product_id p = 1) (products (db ?e6)) = Some (sku 1 catA)"
    by (simp add: input_defs)
  have answered6: "\<not> storage_fails ?e6 CurrentProductQuery"
    by (simp add: storage_up_def)
  have similar6: "similarCategoryProducts ?e6 1 (sku 1 catA) = Inr ?pool6"
    by (simp add: prisma_defs input_defs)
  have pool6: "productsToRank ?e6 1 ?pool6 3 = Inr ?pool6"
    by (simp add: prisma_defs input_defs)
  have use6: "fst (useOllama_of (ollama ?e6))"
    by (simp add: prisma_defs input_defs)
  have enough6: "3 \<le> length ?pool6" and positive3: "0 < (3::nat)"
    by simp_all
  have ranking6: "getOllamaRecommendations (llm_says ''Recommended product IDs: 4, 2'')
                    (sku 1 catA) ?pool6 3
                  = (Inr (Some [4, 2]), [GeneratePOST])"
    by (simp add: ranking_defs input_defs)
  then have ranking6': "getOllamaRecommendations (ollama ?e6) (sku 1 catA) ?pool6 3
                        = (Inr (Some [4, 2]), [GeneratePOST])"
    by simp
  note result_order
    [THEN conjunct1, rule_format, OF unset set1 fb6, THEN conjunct2, THEN conjunct2,
     rule_format, OF found6, THEN conjunct2, THEN conjunct2, rule_format,
     OF answered6 categorised similar6, THEN conjunct2, rule_format, OF pool6,
     THEN conjunct1, rule_format, OF use6 enough6 positive3 ranking6']
  then have r6: "fst (getRecommendations ?e6 (Some 1) None 3)
                 = Inr [sku 4 catA, sku 2 catA, sku 3 catA]"
    by (simp add: productsMap_def List.map_filter_def sku_def)

  txt \<open>The endpoint is switched off.\<close>
  let ?pool7 = "[sku 2 catA, sku 3 catA, sku 6 catB, plain 4]"
  have fb7: "fallbackProducts_query ?up (Some 1) 3 = Inr ?fb"
    by (simp add: prisma_defs input_defs)
  have found7: "find (\<lambda>p. product_id p = 1) (products (db ?up)) = Some (sku 1 catA)"
    by (simp add: input_defs)
  have answered7: "\<not> storage_fails ?up CurrentProductQuery"
    by (simp add: storage_up_def)
  have similar7: "similarCategoryProducts ?up 1 (sku 1 catA) = Inr [sku 2 catA, sku 3 catA]"
    by (simp add: prisma_defs input_defs)
  have pool7: "productsToRank ?up 1 [sku 2 catA, sku 3 catA] 3 = Inr ?pool7"
    by (simp add: prisma_defs input_defs)
  have skipped7: "\<not> fst (useOllama_of (ollama ?up)) \<or> length ?pool7 < 3
                  \<or> fst (getOllamaRecommendations (ollama ?up) (sku 1 catA) ?pool7 3) = Inr None"
    by (simp add: prisma_defs input_defs)
  note result_order
    [THEN conjunct1, rule_format, OF unset set1 fb7, THEN conjunct2, THEN conjunct2,
     rule_format, OF found7, THEN conjunct2, THEN conjunct2, rule_format,
     OF answered7 categorised similar7, THEN conjunct2, rule_format, OF pool7,
     THEN conjunct2, rule_format, OF skipped7]
  then have r7: "fst (getRecommendations ?up (Some 1) None 3)
                 = Inr [sku 2 catA, sku 3 catA, sku 6 catB]"
    by (simp add: sku_def)

  txt \<open>The model names no product.\<close>
  let ?e8 = "\<lparr>ollama = llm_says ''none'', db = side_shop, storage_fails = storage_up\<rparr>"
  have fb8: "fallbackProducts_query ?e8 (Some 1) 3 = Inr ?fb"
    by (simp add: prisma_defs input_defs)
  have found8: "find (\<lambda>p. product_id p = 1) (products (db ?e8)) = Some (sku 1 catA)"
    by (simp add: input_defs)
  have answered8: "\<not> storage_fails ?e8 CurrentProductQuery"
    by (simp add: storage_up_def)
  have similar8: "similarCategoryProducts ?e8 1 (sku 1 catA) = Inr [sku 2 catA, sku 3 catA]"
    by (simp add: prisma_defs input_defs)
  have pool8: "productsToRank ?e8 1 [sku 2 catA, sku 3 catA] 3 = Inr ?pool7"
    by (simp add: prisma_defs input_defs)
  have ranking8: "getOllamaRecommendations (llm_says ''none'') (sku 1 catA) ?pool7 3
                  = (Inr None, [GeneratePOST])"
    by (simp add: ranking_defs input_defs)
  then have null8: "\<not> fst (useOllama_of (ollama ?e8)) \<or> length ?pool7 < 3
                  \<or> fst (getOllamaRecommendations (ollama ?e8) (sku 1 catA) ?pool7 3) = Inr None"
    by simp
  note result_order
    [THEN conjunct1, rule_format, OF unset set1 fb8, THEN conjunct2, THEN conjunct2,
     rule_format, OF found8, THEN conjunct2, THEN conjunct2, rule_format,
     OF answered8 categorised similar8, THEN conjunct2, rule_format, OF pool8,
     THEN conjunct2, rule_format, OF null8]
  then have r8: "fst (getRecommendations ?e8 (Some 1) None 3)
                 = Inr [sku 2 catA, sku 3 catA, sku 6 catB]"
    by (simp add: sku_def)

  txt \<open>The order block: the query for the order rejects.\<close>
  let ?e9 = "\<lparr>ollama = llm_off, db = side_shop, storage_fails = only_fails OrderQuery\<rparr>"
  have fb9: "fallbackProducts_query ?e9 None 2 = Inr ?ofb"
    by (simp add: prisma_defs input_defs)
  have fails9: "storage_fails ?e9 OrderQuery"
    by (simp add: only_fails_def)
  note r9 = result_order
    [THEN conjunct2, THEN conjunct1, rule_format, OF set7 fb9, THEN conjunct1, rule_format,
     OF fails9]

  txt \<open>There is no such order; the order has no items; its product has no row.\<close>
  have ofb: "fallbackProducts_query ?up None 2 = Inr ?ofb"
    by (simp add: prisma_defs input_defs)
  have no_order: "find (\<lambda>row. order_id row = 5) (orders (db ?up)) = None"
    by (simp add: input_defs)
  note r10 = result_order
    [THEN conjunct2, THEN conjunct1, rule_format, OF set5 ofb, THEN conjunct2, THEN conjunct1,
     rule_format, OF no_order]
  have order8: "find (\<lambda>row. order_id row = 8) (orders (db ?up)) = Some (bought 8 [])"
    by (simp add: input_defs)
  have empty8: "items (bought 8 []) = [] \<or> categoryIds_of (db ?up) (bought 8 []) = []"
    by (simp add: bought_def)
  note r11 = result_order
    [THEN conjunct2, THEN conjunct1, rule_format, OF set8 ofb, THEN conjunct2, THEN conjunct2,
     rule_format, OF order8, THEN conjunct1, rule_format, OF empty8]
  have order9: "find (\<lambda>row. order_id row = 9) (orders (db ?up)) = Some (bought 9 [99])"
    by (simp add: input_defs)
  have empty9: "items (bought 9 [99]) = [] \<or> categoryIds_of (db ?up) (bought 9 [99]) = []"
    by (simp add: prisma_defs input_defs)
  note r12 = result_order
    [THEN conjunct2, THEN conjunct1, rule_format, OF set9 ofb, THEN conjunct2, THEN conjunct2,
     rule_format, OF order9, THEN conjunct1, rule_format, OF empty9]

  txt \<open>The query for the category matches of the order rejects.\<close>
  let ?e13 = "\<lparr>ollama = llm_off, db = side_shop, storage_fails = only_fails OrderSimilarQuery\<rparr>"
  have fb13: "fallbackProducts_query ?e13 None 2 = Inr ?ofb"
    by (simp add: prisma_defs input_defs)
  have order13: "find (\<lambda>row. order_id row = 7) (orders (db ?e13)) = Some (bought 7 [1, 99])"
    by (simp add: input_defs)
  have fails13: "storage_fails ?e13 OrderSimilarQuery"
    by (simp add: only_fails_def)
  note r13 = result_order
    [THEN conjunct2, THEN conjunct1, rule_format, OF set7 fb13, THEN conjunct2, THEN conjunct2,
     rule_format, OF order13, THEN conjunct2, THEN conjunct1, rule_format, OF fails13]

  txt \<open>The model ranks the category matches of an order.\<close>
  let ?e14 = "\<lparr>ollama = llm_says ''3, 2'', db = shop, storage_fails = storage_up\<rparr>"
  have fb14: "fallbackProducts_query ?e14 None 2 = Inr [sku 1 catA, sku 2 catA]"
    by (simp add: prisma_defs input_defs)
  have order14: "find (\<lambda>row. order_id row = 1) (orders (db ?e14)) = Some (bought 1 [1])"
    by (simp add: input_defs)
  have answered14: "\<not> storage_fails ?e14 OrderQuery"
    by (simp add: storage_up_def)
  have items14: "items (bought 1 [1]) \<noteq> []"
    by (simp add: bought_def)
  have categories14: "categoryIds_of (db ?e14) (bought 1 [1]) \<noteq> []"
    by (simp add: prisma_defs input_defs)
  have similar14: "similarCategoryProducts_order ?e14 (bought 1 [1]) 2 = Inr ?pool6"
    by (simp add: prisma_defs input_defs)
  have use14: "fst (useOllama_of (ollama ?e14))"
    by (simp add: prisma_defs input_defs)
  have enough14: "2 \<le> length ?pool6" and positive2: "0 < (2::nat)"
    by simp_all
  have ranking14: "getOllamaRecommendationsForOrder (llm_says ''3, 2'') shop (bought 1 [1])
                     ?pool6 2
                   = (Inr (Some [3, 2]), [GeneratePOST])"
    by (simp add: ranking_defs input_defs)
  then have ranking14': "getOllamaRecommendationsForOrder (ollama ?e14) (db ?e14) (bought 1 [1])
                           ?pool6 2
                         = (Inr (Some [3, 2]), [GeneratePOST])"
    by simp
  note result_order
    [THEN conjunct2, THEN conjunct1, rule_format, OF set1 fb14, THEN conjunct2, THEN conjunct2,
     rule_format, OF order14, THEN conjunct2, THEN conjunct2, rule_format,
     OF answered14 items14 categories14 similar14, THEN conjunct1, rule_format,
     OF use14 enough14 positive2 ranking14']
  then have r14: "fst (getRecommendations ?e14 None (Some 1) 2) = Inr [sku 3 catA, sku 2 catA]"
    by (simp add: productsMap_def List.map_filter_def sku_def)

  txt \<open>An item of the order has no product row: the prompt cannot be written.\<close>
  let ?e15 = "\<lparr>ollama = llm_says ''3, 2'', db = side_shop, storage_fails = storage_up\<rparr>"
  have fb15: "fallbackProducts_query ?e15 None 2 = Inr ?ofb"
    by (simp add: prisma_defs input_defs)
  have order15: "find (\<lambda>row. order_id row = 7) (orders (db ?e15)) = Some (bought 7 [1, 99])"
    by (simp add: input_defs)
  have answered15: "\<not> storage_fails ?e15 OrderQuery"
    by (simp add: storage_up_def)
  have items15: "items (bought 7 [1, 99]) \<noteq> []"
    by (simp add: bought_def)
  have categories15: "categoryIds_of (db ?e15) (bought 7 [1, 99]) \<noteq> []"
    by (simp add: prisma_defs input_defs)
  have similar15: "similarCategoryProducts_order ?e15 (bought 7 [1, 99]) 2
                   = Inr [sku 2 catA, sku 3 catA]"
    by (simp add: prisma_defs input_defs)
  have ranking15: "getOllamaRecommendationsForOrder (llm_says ''3, 2'') side_shop
                     (bought 7 [1, 99]) [sku 2 catA, sku 3 catA] 2
                   = (Inr None, [])"
    by (simp add: ranking_defs input_defs)
  then have null15: "\<not> fst (useOllama_of (ollama ?e15)) \<or> length [sku 2 catA, sku 3 catA] < 2
      \<or> fst (getOllamaRecommendationsForOrder (ollama ?e15) (db ?e15) (bought 7 [1, 99])
               [sku 2 catA, sku 3 catA] 2)
          = Inr None"
    by simp
  note result_order
    [THEN conjunct2, THEN conjunct1, rule_format, OF set7 fb15, THEN conjunct2, THEN conjunct2,
     rule_format, OF order15, THEN conjunct2, THEN conjunct2, rule_format,
     OF answered15 items15 categories15 similar15, THEN conjunct2, rule_format, OF null15]
  then have r15: "fst (getRecommendations ?e15 None (Some 7) 2) = Inr [sku 2 catA, sku 3 catA]"
    by (simp add: sku_def)

  txt \<open>A request with neither a product nor an order.\<close>
  let ?e16 = "\<lparr>ollama = llm_off, db = shop, storage_fails = storage_up\<rparr>"
  have fb16: "fallbackProducts_query ?e16 None 2 = Inr [sku 1 catA, sku 2 catA]"
    by (simp add: prisma_defs input_defs)
  note r16 = result_order
    [THEN conjunct2, THEN conjunct2, THEN conjunct1, rule_format, OF unset unset fb16]

  txt \<open>The cache-based file.\<close>
  let ?down = "\<lparr>c_ollama = llm_down, first_read = catalogue, handler_read = catalogue\<rparr>"
  let ?says = "\<lparr>c_ollama = llm_says ''1, 2'', first_read = catalogue,
                 handler_read = catalogue\<rparr>"
  let ?s1 = "snd (getProductsWithOrderCounts catalogue cold)"
  let ?cps = "[cached ''a3'' ''B'' 7 50, cached ''a5'' ''B'' 3 40, cached ''a4'' ''A'' 2 90,
               cached ''a1'' ''A'' 0 50, cached ''a2'' ''A'' 0 60]"
  have read_down: "getProductsWithOrderCounts (first_read ?down) cold = (Inr 0, ?s1)"
    by (simp add: cache_defs input_defs)
  have read_says: "getProductsWithOrderCounts (first_read ?says) cold = (Inr 0, ?s1)"
    by (simp add: cache_defs input_defs)
  have sorted_cps: "arrays (sort_in_place 0 ?s1) 0 = ?cps"
    by (simp add: cache_defs input_defs)
  have not_given: "given None = None" and given_zz: "given (Some ''zz'') = Some ''zz''"
    and given_a1: "given (Some ''a1'') = Some ''a1''"
    by (simp_all add: given_def)
  note r17 = result_order
    [THEN conjunct2, THEN conjunct2, THEN conjunct2, rule_format, OF read_down sorted_cps,
     THEN conjunct1, rule_format, OF not_given, where limit = 2]
  have no_zz: "find (\<lambda>p. toString (cp_id p) = ''zz'') ?cps = None"
    by (simp add: cached_def)
  note r18 = result_order
    [THEN conjunct2, THEN conjunct2, THEN conjunct2, rule_format, OF read_down sorted_cps,
     THEN conjunct2, rule_format, OF given_zz, THEN conjunct1, rule_format, OF no_zz,
     where limit = 2]
  have seed: "find (\<lambda>p. toString (cp_id p) = ''a1'') ?cps = Some (cached ''a1'' ''A'' 0 50)"
    by (simp add: cached_def)
  have similar_2: "similarProducts ?cps ''a1'' (cached ''a1'' ''A'' 0 50) 2
                   = [cached ''a2'' ''A'' 0 60]"
    by (simp add: cache_defs input_defs)
  have skipped: "\<not> fst (useOllama_of (c_ollama ?down)) \<or> length [cached ''a2'' ''A'' 0 60] < 2
      \<or> fst (getOllamaRecommendations_cache (c_ollama ?down) (cached ''a1'' ''A'' 0 50)
               [cached ''a2'' ''A'' 0 60] 2)
          = Inr None"
    by simp
  note result_order
    [THEN conjunct2, THEN conjunct2, THEN conjunct2, rule_format, OF read_down sorted_cps,
     THEN conjunct2, rule_format, OF given_a1, THEN conjunct2, rule_format, OF seed similar_2,
     THEN conjunct1, rule_format, OF skipped]
  then have r19: "fst (fst (getRecommendations_cache ?down (Some ''a1'') 2 cold))
                  = Inr [cached ''a3'' ''B'' 7 50, cached ''a5'' ''B'' 3 40]"
    by simp
  have similar_1: "similarProducts ?cps ''a1'' (cached ''a1'' ''A'' 0 50) 1
                   = [cached ''a2'' ''A'' 0 60]"
    by (simp add: cache_defs input_defs)
  have ranking_says: "getOllamaRecommendations_cache (llm_says ''1, 2'')
                        (cached ''a1'' ''A'' 0 50) [cached ''a2'' ''A'' 0 60] 1
                      = (Inr (Some []), [GeneratePOST])"
    by (simp add: ranking_defs input_defs cached_def)
  then have ranking_says': "getOllamaRecommendations_cache (c_ollama ?says)
                              (cached ''a1'' ''A'' 0 50) [cached ''a2'' ''A'' 0 60] 1
                            = (Inr (Some []), [GeneratePOST])"
    by simp
  have no_ids: "length ([] :: int list) < 2"
    by simp
  note result_order
    [THEN conjunct2, THEN conjunct2, THEN conjunct2, rule_format, OF read_says sorted_cps,
     THEN conjunct2, rule_format, OF given_a1, THEN conjunct2, rule_format, OF seed similar_1,
     THEN conjunct2, rule_format, OF ranking_says' no_ids]
  then have r20: "fst (fst (getRecommendations_cache ?says (Some ''a1'') 1 cold))
                  = Inr [cached ''a2'' ''A'' 0 60]"
    by simp
  from r1 r2 r3 r4 r5 ranking6 r6 r7 ranking8 r8 r9 r10 r11 r12 r13 ranking14 r14 ranking15 r15
    r16 r17 [simplified] r18 [simplified] r19 ranking_says r20
  show ?thesis
    by (intro conjI)
qed

end
